theory Spec2Isabelle
  imports Main "HOL-Library.Word"
begin

unbundle bit_operations_syntax

section \<open>Basic types\<close>

text \<open>
  The evaluator of \<^verbatim>\<open>evaluate.cpp\<close> works on the position of \<^verbatim>\<open>position.h\<close>.
  Colours are the two-valued enum; squares, ranks, files, directions and values are C++
  enums and ints, modelled as \<open>int\<close>; piece types are enum values used as array indices,
  modelled as \<open>nat\<close>. A bitboard is a machine word: 64 bits in the default build and 128
  bits with \<^verbatim>\<open>LARGEBOARDS\<close>, so its width is left as the type parameter \<open>'w\<close>.
\<close>

datatype color = WHITE | BLACK

fun flip_color :: "color \<Rightarrow> color" where
  "flip_color WHITE = BLACK"
| "flip_color BLACK = WHITE"

type_synonym square = int
type_synonym piece_type = nat

text \<open>
  The piece types below are fixed by the tables of \<^verbatim>\<open>evaluate.cpp\<close>:
  \<^verbatim>\<open>KingAttackWeights = { 0, 0, 77, 55, 44, 10 }\<close> and \<^verbatim>\<open>MobilityBonus[PieceType-2]\<close>
  list knights, bishops, rooks, queens in this order. \<^verbatim>\<open>ALL_PIECES\<close> shares index 0
  with \<^verbatim>\<open>NO_PIECE_TYPE\<close>. The fairy piece types, \<^verbatim>\<open>SHOGI_PAWN\<close> and \<^verbatim>\<open>KING\<close> come
  after \<^verbatim>\<open>QUEEN\<close>; their numbers are parameters (see \<open>env\<close>).
\<close>

definition NO_PIECE_TYPE :: piece_type where "NO_PIECE_TYPE = 0"
definition ALL_PIECES :: piece_type where "ALL_PIECES = 0"
definition PAWN :: piece_type where "PAWN = 1"
definition KNIGHT :: piece_type where "KNIGHT = 2"
definition BISHOP :: piece_type where "BISHOP = 3"
definition ROOK :: piece_type where "ROOK = 4"
definition QUEEN :: piece_type where "QUEEN = 5"

definition RANK_1 :: int where "RANK_1 = 0"
definition RANK_2 :: int where "RANK_2 = 1"
definition RANK_3 :: int where "RANK_3 = 2"
definition RANK_7 :: int where "RANK_7 = 6"
definition FILE_A :: int where "FILE_A = 0"
definition FILE_B :: int where "FILE_B = 1"
definition FILE_H :: int where "FILE_H = 7"

text \<open>C++ integer division truncates towards zero.\<close>

definition cdiv :: "int \<Rightarrow> int \<Rightarrow> int" where
  "cdiv a b = sgn a * sgn b * (\<bar>a\<bar> div \<bar>b\<bar>)"

text \<open>
  A C++ \<^verbatim>\<open>int\<close> has 32 bits. \<open>to_int\<close> gives the value that a sum or a product of ints
  has as an \<^verbatim>\<open>int\<close>: the low 32 bits of the exact result, read in two's complement. It
  leaves the numbers from \<open>- 2\<^sup>3\<^sup>1\<close> to \<open>2\<^sup>3\<^sup>1 - 1\<close> as they are.
\<close>

definition to_int :: "int \<Rightarrow> int" where
  "to_int x = sint (word_of_int x :: 32 word)"

subsection \<open>Tapered scores\<close>

text \<open>
  Modelled from the spec: the type \<^verbatim>\<open>Score\<close> and its operators are declared in
  \<^verbatim>\<open>types.h\<close>, which is not among the sources. The specification describes a tapered
  score as a pair (middlegame value, endgame value) that is kept as a pair until the final
  interpolation; sums, differences and products with an int act on both components, and
  the division by an int divides both components as C++ ints.
\<close>

datatype score = Score (mg_value: int) (eg_value: int)

definition make_score :: "int \<Rightarrow> int \<Rightarrow> score" where
  "make_score m e = Score m e"

definition SCORE_ZERO :: score where
  "SCORE_ZERO = Score 0 0"

definition sc_add :: "score \<Rightarrow> score \<Rightarrow> score" where
  "sc_add a b = Score (mg_value a + mg_value b) (eg_value a + eg_value b)"

definition sc_sub :: "score \<Rightarrow> score \<Rightarrow> score" where
  "sc_sub a b = Score (mg_value a - mg_value b) (eg_value a - eg_value b)"

definition sc_mul :: "score \<Rightarrow> int \<Rightarrow> score" where
  "sc_mul a i = Score (mg_value a * i) (eg_value a * i)"

definition sc_div :: "score \<Rightarrow> int \<Rightarrow> score" where
  "sc_div a i = make_score (cdiv (mg_value a) i) (cdiv (eg_value a) i)"

section \<open>Declarations used from other files\<close>

text \<open>
  \<^verbatim>\<open>evaluate.cpp\<close> uses constants, tables and functions of \<^verbatim>\<open>types.h\<close>,
  \<^verbatim>\<open>bitboard.h\<close> and \<^verbatim>\<open>evaluate.h\<close>. They are collected in one record of
  parameters, each field named after the C++ declaration it stands for. Overloaded or
  templated C++ names get one field per use: \<open>relative_rank\<close> takes a rank and
  \<open>relative_rank_sq\<close> a square; \<open>attacks_bb_tmpl\<close> is the template
  \<^verbatim>\<open>attacks_bb<Pt>(s, occupied)\<close> and \<open>attacks_bb\<close> the function
  \<^verbatim>\<open>attacks_bb(c, pt, s, occupied)\<close>; \<open>distance_file\<close> and \<open>distance_rank\<close>
  are \<^verbatim>\<open>distance<File>\<close> and \<^verbatim>\<open>distance<Rank>\<close>; \<open>squares_of\<close> lists the squares of
  a bitboard in the order in which repeated \<^verbatim>\<open>pop_lsb\<close> returns them.
\<close>

record (overloaded) ('w::len) env =
  KING :: piece_type
  SHOGI_PAWN :: piece_type
  SQ_NONE :: square
  NORTH :: int
  Tempo :: int
  VALUE_NONE :: int
  VALUE_MATE :: int
  SCALE_FACTOR_NORMAL :: int
  PHASE_MIDGAME :: int
  KnightValueMg :: int
  BishopValueMg :: int
  RookValueMg :: int
  QueenValueMg :: int
  QueenValueEg :: int
  PieceValueMg :: "piece_type \<Rightarrow> int"
  PieceValueEg :: "piece_type \<Rightarrow> int"
  convert_mate_value :: "int \<Rightarrow> int \<Rightarrow> int"
  FileABB :: "'w word"
  FileBBB :: "'w word"
  FileCBB :: "'w word"
  FileDBB :: "'w word"
  FileEBB :: "'w word"
  FileFBB :: "'w word"
  FileGBB :: "'w word"
  FileHBB :: "'w word"
  SquareBB :: "square \<Rightarrow> 'w word"
  LineBB :: "square \<Rightarrow> square \<Rightarrow> 'w word"
  popcount :: "'w word \<Rightarrow> int"
  squares_of :: "'w word \<Rightarrow> square list"
  shift :: "int \<Rightarrow> 'w word \<Rightarrow> 'w word"
  rank_bb :: "int \<Rightarrow> 'w word"
  file_bb :: "int \<Rightarrow> 'w word"
  adjacent_files_bb :: "int \<Rightarrow> 'w word"
  forward_ranks_bb :: "color \<Rightarrow> int \<Rightarrow> 'w word"
  forward_file_bb :: "color \<Rightarrow> square \<Rightarrow> 'w word"
  passed_pawn_mask :: "color \<Rightarrow> square \<Rightarrow> 'w word"
  board_size_bb :: "int \<Rightarrow> int \<Rightarrow> 'w word"
  relative_rank :: "color \<Rightarrow> int \<Rightarrow> int \<Rightarrow> int"
  relative_rank_sq :: "color \<Rightarrow> square \<Rightarrow> int \<Rightarrow> int"
  file_of :: "square \<Rightarrow> int"
  distance :: "square \<Rightarrow> square \<Rightarrow> int"
  distance_file :: "square \<Rightarrow> square \<Rightarrow> int"
  distance_rank :: "square \<Rightarrow> square \<Rightarrow> int"
  attacks_bb :: "color \<Rightarrow> piece_type \<Rightarrow> square \<Rightarrow> 'w word \<Rightarrow> 'w word"
  moves_bb :: "color \<Rightarrow> piece_type \<Rightarrow> square \<Rightarrow> 'w word \<Rightarrow> 'w word"
  attacks_bb_tmpl :: "piece_type \<Rightarrow> square \<Rightarrow> 'w word \<Rightarrow> 'w word"
  drop_region :: "color \<Rightarrow> piece_type \<Rightarrow> 'w word"
  opposite_colors :: "square \<Rightarrow> square \<Rightarrow> bool"

definition AllSquares :: "'w::len word" where
  "AllSquares = NOT 0"

text \<open>\<^verbatim>\<open>b & s\<close> for a bitboard and a square is \<^verbatim>\<open>b & SquareBB[s]\<close>.\<close>

definition bb_sq :: "('w::len) env \<Rightarrow> 'w word \<Rightarrow> square \<Rightarrow> 'w word" where
  "bb_sq X b s = b AND SquareBB X s"

definition pawn_push :: "('w::len) env \<Rightarrow> color \<Rightarrow> int" where
  "pawn_push X c = (if c = WHITE then NORTH X else - NORTH X)"

definition QueenSide :: "('w::len) env \<Rightarrow> 'w word" where
  "QueenSide X = FileABB X OR FileBBB X OR FileCBB X OR FileDBB X"

definition CenterFiles :: "('w::len) env \<Rightarrow> 'w word" where
  "CenterFiles X = FileCBB X OR FileDBB X OR FileEBB X OR FileFBB X"

definition KingSide :: "('w::len) env \<Rightarrow> 'w word" where
  "KingSide X = FileEBB X OR FileFBB X OR FileGBB X OR FileHBB X"

definition KingFlank :: "('w::len) env \<Rightarrow> int \<Rightarrow> 'w word" where
  "KingFlank X f =
     (if f = 0 \<or> f = 1 \<or> f = 2 then QueenSide X
      else if f = 3 \<or> f = 4 then CenterFiles X
      else KingSide X)"

section \<open>The position (position.h)\<close>

text \<open>
  The variant rules read through \<^verbatim>\<open>var->\<close>, the fields of \<^verbatim>\<open>StateInfo\<close> read through
  \<^verbatim>\<open>st->\<close>, and the data members of \<^verbatim>\<open>Position\<close>. The field \<open>contempt\<close> is the
  value of \<^verbatim>\<open>this_thread()->contempt\<close>. Arrays indexed by a piece
  (\<^verbatim>\<open>make_piece(c, pt)\<close>) are indexed by colour and piece type. \<^verbatim>\<open>pieceList\<close> is the
  array of squares ended by \<^verbatim>\<open>SQ_NONE\<close>. The set \<^verbatim>\<open>pieceTypes\<close> is the list of its
  elements in increasing order, the order in which a range-for visits them.
\<close>

record variant =
  maxRank :: int
  maxFile :: int
  pieceTypes :: "piece_type list"
  promotionPieceTypes :: "piece_type list"
  promotedPieceType :: "piece_type \<Rightarrow> piece_type"
  "checking" :: bool
  mustCapture :: bool
  pieceDrops :: bool
  capturesToHand :: bool
  shogiDoubledPawn :: bool
  extinctionValue :: int
  maxCheckCount :: int
  connectN :: int

record (overloaded) ('w::len) state_info =
  psq :: score
  nonPawnMaterial :: "color \<Rightarrow> int"
  checksGiven :: "color \<Rightarrow> int"
  blockersForKing :: "color \<Rightarrow> 'w word"

record (overloaded) ('w::len) position =
  board :: "square \<Rightarrow> (color \<times> piece_type) option"
  byTypeBB :: "piece_type \<Rightarrow> 'w word"
  byColorBB :: "color \<Rightarrow> 'w word"
  pieceCount :: "color \<Rightarrow> piece_type \<Rightarrow> int"
  pieceList :: "color \<Rightarrow> piece_type \<Rightarrow> nat \<Rightarrow> square"
  sideToMove :: color
  st :: "'w state_info"
  var :: variant
  pieceCountInHand :: "color \<Rightarrow> piece_type \<Rightarrow> int"
  contempt :: score

definition max_rank :: "('w::len) position \<Rightarrow> int" where
  "max_rank pos = maxRank (var pos)"

definition max_file :: "('w::len) position \<Rightarrow> int" where
  "max_file pos = maxFile (var pos)"

definition board_bb :: "('w::len) env \<Rightarrow> 'w position \<Rightarrow> 'w word" where
  "board_bb X pos = board_size_bb X (maxFile (var pos)) (maxRank (var pos))"

definition piece_types :: "('w::len) position \<Rightarrow> piece_type list" where
  "piece_types pos = pieceTypes (var pos)"

definition promotion_piece_types :: "('w::len) position \<Rightarrow> piece_type list" where
  "promotion_piece_types pos = promotionPieceTypes (var pos)"

definition checking_permitted :: "('w::len) position \<Rightarrow> bool" where
  "checking_permitted pos = checking (var pos)"

definition must_capture :: "('w::len) position \<Rightarrow> bool" where
  "must_capture pos = mustCapture (var pos)"

definition piece_drops :: "('w::len) position \<Rightarrow> bool" where
  "piece_drops pos = pieceDrops (var pos)"

definition captures_to_hand :: "('w::len) position \<Rightarrow> bool" where
  "captures_to_hand pos = capturesToHand (var pos)"

definition shogi_doubled_pawn :: "('w::len) position \<Rightarrow> bool" where
  "shogi_doubled_pawn pos = shogiDoubledPawn (var pos)"

definition extinction_value :: "('w::len) env \<Rightarrow> 'w position \<Rightarrow> int" where
  "extinction_value X pos = convert_mate_value X (extinctionValue (var pos)) 0"

definition max_check_count :: "('w::len) position \<Rightarrow> int" where
  "max_check_count pos = maxCheckCount (var pos)"

definition connect_n :: "('w::len) position \<Rightarrow> int" where
  "connect_n pos = connectN (var pos)"

definition count_in_hand :: "('w::len) position \<Rightarrow> color \<Rightarrow> piece_type \<Rightarrow> int" where
  "count_in_hand pos c pt = pieceCountInHand pos c pt"

definition pieces :: "('w::len) position \<Rightarrow> 'w word" where
  "pieces pos = byTypeBB pos ALL_PIECES"

definition pieces_pt :: "('w::len) position \<Rightarrow> piece_type \<Rightarrow> 'w word" where
  "pieces_pt pos pt = byTypeBB pos pt"

definition pieces_pt2 :: "('w::len) position \<Rightarrow> piece_type \<Rightarrow> piece_type \<Rightarrow> 'w word" where
  "pieces_pt2 pos pt1 pt2 = byTypeBB pos pt1 OR byTypeBB pos pt2"

definition pieces_c :: "('w::len) position \<Rightarrow> color \<Rightarrow> 'w word" where
  "pieces_c pos c = byColorBB pos c"

definition pieces_c_pt :: "('w::len) position \<Rightarrow> color \<Rightarrow> piece_type \<Rightarrow> 'w word" where
  "pieces_c_pt pos c pt = byColorBB pos c AND byTypeBB pos pt"

definition pieces_c_pt2 ::
  "('w::len) position \<Rightarrow> color \<Rightarrow> piece_type \<Rightarrow> piece_type \<Rightarrow> 'w word" where
  "pieces_c_pt2 pos c pt1 pt2 = byColorBB pos c AND (byTypeBB pos pt1 OR byTypeBB pos pt2)"

definition empty_sq :: "('w::len) position \<Rightarrow> square \<Rightarrow> bool" where
  "empty_sq pos s = (board pos s = None)"

definition count_c :: "('w::len) position \<Rightarrow> piece_type \<Rightarrow> color \<Rightarrow> int" where
  "count_c pos pt c = pieceCount pos c pt"

definition count_all :: "('w::len) position \<Rightarrow> piece_type \<Rightarrow> int" where
  "count_all pos pt = pieceCount pos WHITE pt + pieceCount pos BLACK pt"

definition squares :: "('w::len) env \<Rightarrow> 'w position \<Rightarrow> color \<Rightarrow> piece_type \<Rightarrow> square list" where
  "squares X pos c pt = takeWhile (\<lambda>s. s \<noteq> SQ_NONE X) (map (pieceList pos c pt) [0..<64])"

definition square_of :: "('w::len) position \<Rightarrow> piece_type \<Rightarrow> color \<Rightarrow> square" where
  "square_of pos pt c = pieceList pos c pt 0"

definition attacks_from ::
  "('w::len) env \<Rightarrow> 'w position \<Rightarrow> color \<Rightarrow> piece_type \<Rightarrow> square \<Rightarrow> 'w word" where
  "attacks_from X pos c pt s = attacks_bb X c pt s (byTypeBB pos ALL_PIECES)"

definition moves_from ::
  "('w::len) env \<Rightarrow> 'w position \<Rightarrow> color \<Rightarrow> piece_type \<Rightarrow> square \<Rightarrow> 'w word" where
  "moves_from X pos c pt s = moves_bb X c pt s (byTypeBB pos ALL_PIECES)"

definition blockers_for_king :: "('w::len) position \<Rightarrow> color \<Rightarrow> 'w word" where
  "blockers_for_king pos c = blockersForKing (st pos) c"

definition pawn_passed :: "('w::len) env \<Rightarrow> 'w position \<Rightarrow> color \<Rightarrow> square \<Rightarrow> bool" where
  "pawn_passed X pos c s = (pieces_c_pt pos (flip_color c) PAWN AND passed_pawn_mask X c s = 0)"

definition side_to_move :: "('w::len) position \<Rightarrow> color" where
  "side_to_move pos = sideToMove pos"

definition non_pawn_material_c :: "('w::len) position \<Rightarrow> color \<Rightarrow> int" where
  "non_pawn_material_c pos c = nonPawnMaterial (st pos) c"

definition non_pawn_material :: "('w::len) position \<Rightarrow> int" where
  "non_pawn_material pos = nonPawnMaterial (st pos) WHITE + nonPawnMaterial (st pos) BLACK"

definition psq_score :: "('w::len) position \<Rightarrow> score" where
  "psq_score pos = psq (st pos)"

definition opposite_bishops :: "('w::len) env \<Rightarrow> 'w position \<Rightarrow> bool" where
  "opposite_bishops X pos =
     (pieceCount pos WHITE BISHOP = 1 \<and> pieceCount pos BLACK BISHOP = 1
      \<and> opposite_colors X (square_of pos BISHOP WHITE) (square_of pos BISHOP BLACK))"

section \<open>The pawn hash table entry\<close>

text \<open>
  \<^verbatim>\<open>Pawns::Entry\<close> is read through \<^verbatim>\<open>pe->\<close>; each field is the value that the member
  function of this name returns for the position.
\<close>

record (overloaded) ('w::len) pawn_entry =
  pawn_score :: "color \<Rightarrow> score"
  pawn_attacks :: "color \<Rightarrow> 'w word"
  passed_pawns :: "color \<Rightarrow> 'w word"
  pawn_asymmetry :: int
  king_safety :: "color \<Rightarrow> square \<Rightarrow> score"

section \<open>Tempo and initiative\<close>

definition tempo_value :: "('w::len) env \<Rightarrow> 'w position \<Rightarrow> int" where
  "tempo_value X pos = Tempo X * (1 + 4 * of_bool (captures_to_hand pos))"

definition initiative :: "('w::len) env \<Rightarrow> 'w pawn_entry \<Rightarrow> 'w position \<Rightarrow> int \<Rightarrow> score" where
  "initiative X pe pos eg =
     (if extinction_value X pos \<noteq> VALUE_NONE X \<or> captures_to_hand pos \<or> connect_n pos \<noteq> 0
      then SCORE_ZERO
      else
        let outflanking =
              (if count_c pos (KING X) WHITE = 0 \<or> count_c pos (KING X) BLACK = 0 then 0
               else distance_file X (square_of pos (KING X) WHITE) (square_of pos (KING X) BLACK)
                  - distance_rank X (square_of pos (KING X) WHITE) (square_of pos (KING X) BLACK));
            pawnsOnBothFlanks =
              (pieces_pt pos PAWN AND QueenSide X \<noteq> 0 \<and> pieces_pt pos PAWN AND KingSide X \<noteq> 0);
            complexity = 8 * outflanking
                       + 8 * pawn_asymmetry pe
                       + 12 * count_all pos PAWN
                       + 16 * of_bool pawnsOnBothFlanks
                       + 48 * of_bool (non_pawn_material pos = 0)
                       - 136;
            v = (of_bool (eg > 0) - of_bool (eg < 0)) * max complexity (- \<bar>eg\<bar>)
        in make_score 0 v)"

section \<open>The evaluation object (evaluate.cpp)\<close>

text \<open>
  The working data of \<^verbatim>\<open>class Evaluation\<close>. Only \<^verbatim>\<open>mobility\<close> has an initialiser;
  the other members hold whatever the memory holds until they are assigned. For the three
  king-attack counters this is made explicit: \<open>None\<close> is a counter that has not been
  assigned yet, and arithmetic on it leaves it unassigned.
\<close>

record (overloaded) ('w::len) evaluation =
  mobilityArea :: "color \<Rightarrow> 'w word"
  mobility :: "color \<Rightarrow> score"
  attackedBy :: "color \<Rightarrow> piece_type \<Rightarrow> 'w word"
  attackedBy2 :: "color \<Rightarrow> 'w word"
  kingRing :: "color \<Rightarrow> 'w word"
  kingAttackersCount :: "color \<Rightarrow> int option"
  kingAttackersWeight :: "color \<Rightarrow> int option"
  kingAttacksCount :: "color \<Rightarrow> int option"

definition new_evaluation :: "('w::len) evaluation \<Rightarrow> 'w evaluation" where
  "new_evaluation mem =
     mem\<lparr> mobility := (\<lambda>c. SCORE_ZERO),
          kingAttackersCount := (\<lambda>c. None),
          kingAttackersWeight := (\<lambda>c. None),
          kingAttacksCount := (\<lambda>c. None) \<rparr>"

definition set2 :: "('a \<Rightarrow> 'b \<Rightarrow> 'c) \<Rightarrow> 'a \<Rightarrow> 'b \<Rightarrow> 'c \<Rightarrow> ('a \<Rightarrow> 'b \<Rightarrow> 'c)" where
  "set2 f a b v = f(a := (f a)(b := v))"

text \<open>
  A constant table is the list of its initialisers; \<open>tab_at xs d i\<close> reads the element
  \<open>i\<close>, and \<open>d\<close>, the zero of the element type, past the initialisers, which is what C++
  puts into the rest of an array that has fewer initialisers than elements.
\<close>

definition tab_at :: "'a list \<Rightarrow> 'a \<Rightarrow> int \<Rightarrow> 'a" where
  "tab_at xs d i = (if 0 \<le> i \<and> nat i < length xs then xs ! nat i else d)"

definition EAST :: int where "EAST = 1"
definition WEST :: int where "WEST = - 1"

definition KingAttackWeights :: "int list" where
  "KingAttackWeights = [0, 0, 77, 55, 44, 10]"

definition QueenSafeCheck :: int where "QueenSafeCheck = 780"
definition RookSafeCheck :: int where "RookSafeCheck = 880"
definition BishopSafeCheck :: int where "BishopSafeCheck = 435"
definition KnightSafeCheck :: int where "KnightSafeCheck = 790"
definition OtherSafeCheck :: int where "OtherSafeCheck = 600"

definition MobilityBonus :: "score list list" where
  "MobilityBonus = [
     [Score (- 75) (- 76), Score (- 57) (- 54), Score (- 9) (- 28), Score (- 2) (- 10),
      Score 6 5, Score 14 12, Score 22 26, Score 29 29, Score 36 29],
     [Score (- 48) (- 59), Score (- 20) (- 23), Score 16 (- 3), Score 26 13, Score 38 24,
      Score 51 42, Score 55 54, Score 63 57, Score 63 65, Score 68 73, Score 81 78,
      Score 81 86, Score 91 88, Score 98 97],
     [Score (- 58) (- 76), Score (- 27) (- 18), Score (- 15) 28, Score (- 10) 55,
      Score (- 5) 69, Score (- 2) 82, Score 9 112, Score 16 118, Score 30 132, Score 29 142,
      Score 32 155, Score 38 165, Score 46 166, Score 48 169, Score 58 171],
     [Score (- 39) (- 36), Score (- 21) (- 15), Score 3 8, Score 3 18, Score 14 34,
      Score 22 54, Score 28 61, Score 41 73, Score 43 79, Score 48 92, Score 56 94,
      Score 60 104, Score 60 113, Score 66 120, Score 67 123, Score 70 126, Score 71 133,
      Score 73 136, Score 79 140, Score 88 143, Score 88 148, Score 99 166, Score 102 170,
      Score 102 175, Score 106 184, Score 109 191, Score 113 206, Score 116 212]]"

definition MaxMobility :: score where "MaxMobility = Score 300 300"
definition DropMobility :: score where "DropMobility = Score 10 10"

definition PassedRank :: "score list" where
  "PassedRank = [Score 0 0, Score 5 7, Score 5 13, Score 18 23, Score 74 58, Score 164 166,
                 Score 268 243]"

definition PassedFile :: "score list" where
  "PassedFile = [Score 15 7, Score (- 5) 14, Score 1 (- 5), Score (- 22) (- 11),
                 Score (- 22) (- 11), Score 1 (- 5), Score (- 5) 14, Score 15 7]"

definition PassedDanger :: "int list" where
  "PassedDanger = [0, 0, 0, 3, 6, 12, 21]"

definition CloseEnemies :: score where "CloseEnemies = Score 7 0"
definition HinderPassedPawn :: score where "HinderPassedPawn = Score 8 1"
definition PawnlessFlank :: score where "PawnlessFlank = Score 20 80"

subsection \<open>initialize\<close>

text \<open>Line 267: our pawns that are blocked or on the low ranks.\<close>

definition low_or_blocked_pawns :: "('w::len) env \<Rightarrow> 'w position \<Rightarrow> color \<Rightarrow> 'w word" where
  "low_or_blocked_pawns X pos Us =
     (let Down = (if Us = WHITE then - NORTH X else NORTH X);
          LowRanks = rank_bb X (relative_rank X Us RANK_2 (max_rank pos))
                     OR rank_bb X (relative_rank X Us RANK_3 (max_rank pos))
      in pieces_c_pt pos Us PAWN AND (shift X Down (pieces pos) OR LowRanks))"

text \<open>Line 283: the king safety tables are set up only if they are going to be used.\<close>

definition king_safety_used :: "('w::len) env \<Rightarrow> 'w position \<Rightarrow> color \<Rightarrow> bool" where
  "king_safety_used X pos Us =
     ((count_c pos (KING X) Us \<noteq> 0
         \<and> non_pawn_material_c pos (flip_color Us) \<ge> RookValueMg X + KnightValueMg X)
      \<or> captures_to_hand pos)"

definition initialize ::
  "('w::len) env \<Rightarrow> 'w pawn_entry \<Rightarrow> 'w position \<Rightarrow> color \<Rightarrow> 'w evaluation \<Rightarrow> 'w evaluation" where
  "initialize X pe pos Us e0 =
     (let Them = flip_color Us;
          Up = (if Us = WHITE then NORTH X else - NORTH X);
          Down = (if Us = WHITE then - NORTH X else NORTH X);
          b = low_or_blocked_pawns X pos Us;
          e1 = e0\<lparr> mobilityArea := (mobilityArea e0)(Us :=
                 (if must_capture pos then AllSquares
                  else NOT (b OR pieces_c_pt2 pos Us (KING X) QUEEN OR pawn_attacks pe Them
                            OR shift X Down (pieces_c_pt pos Them (SHOGI_PAWN X))))) \<rparr>;
          e2 = e1\<lparr> attackedBy := set2 (attackedBy e1) Us (KING X)
                 (if count_c pos (KING X) Us \<noteq> 0
                  then attacks_from X pos Us (KING X) (square_of pos (KING X) Us) else 0) \<rparr>;
          e3 = e2\<lparr> attackedBy := set2 (attackedBy e2) Us PAWN (pawn_attacks pe Us) \<rparr>;
          e4 = e3\<lparr> attackedBy := set2 (attackedBy e3) Us ALL_PIECES
                 (attackedBy e3 Us (KING X) OR attackedBy e3 Us PAWN) \<rparr>;
          e5 = e4\<lparr> attackedBy2 := (attackedBy2 e4)(Us :=
                 attackedBy e4 Us (KING X) AND attackedBy e4 Us PAWN) \<rparr>
      in if king_safety_used X pos Us
         then
           let kr0 = attackedBy e5 Us (KING X);
               kr1 = (if relative_rank_sq X Us (square_of pos (KING X) Us) (max_rank pos) = RANK_1
                      then kr0 OR shift X Up kr0 else kr0);
               kr2 = (if file_of X (square_of pos (KING X) Us) = max_file pos
                      then kr1 OR shift X WEST kr1
                      else if file_of X (square_of pos (KING X) Us) = FILE_A
                      then kr1 OR shift X EAST kr1
                      else kr1);
               kr3 = kr2 AND board_bb X pos
           in e5\<lparr> kingRing := (kingRing e5)(Us := kr3),
                   kingAttackersCount := (kingAttackersCount e5)(Them :=
                     Some (popcount X (kr3 AND pawn_attacks pe Them))),
                   kingAttackersWeight := (kingAttackersWeight e5)(Them := Some 0),
                   kingAttacksCount := (kingAttacksCount e5)(Them := Some 0) \<rparr>
         else e5\<lparr> kingRing := (kingRing e5)(Us := 0),
                   kingAttackersCount := (kingAttackersCount e5)(Them := Some 0) \<rparr>)"

subsection \<open>pieces\<close>

text \<open>
  Lines 323 to 333: the squares attacked by the piece of type \<open>Pt\<close> on \<open>s\<close>. The
  occupancy given to the sliding attack of a bishop or a rook is \<open>xray_occupancy\<close>.
\<close>

definition xray_occupancy :: "('w::len) position \<Rightarrow> color \<Rightarrow> piece_type \<Rightarrow> 'w word" where
  "xray_occupancy pos Us Pt =
     (if Pt = BISHOP then pieces pos XOR pieces_pt pos QUEEN
      else pieces pos XOR pieces_pt pos QUEEN XOR pieces_c_pt pos Us ROOK)"

definition piece_attacks ::
  "('w::len) env \<Rightarrow> 'w position \<Rightarrow> color \<Rightarrow> piece_type \<Rightarrow> square \<Rightarrow> 'w word" where
  "piece_attacks X pos Us Pt s =
     (let b = (if Pt = BISHOP then attacks_bb_tmpl X BISHOP s (xray_occupancy pos Us Pt)
               else if Pt = ROOK then attacks_bb_tmpl X ROOK s (xray_occupancy pos Us Pt)
               else (attacks_from X pos Us Pt s AND pieces pos)
                    OR (moves_from X pos Us Pt s AND NOT (pieces pos)));
          b = b AND board_bb X pos
      in if bb_sq X (blockers_for_king pos Us) s \<noteq> 0
         then b AND LineBB X (square_of pos (KING X) Us) s
         else b)"

text \<open>
  Lines 335 to 351: what one round of the loop of \<open>pieces\<close> does to the evaluation
  object. The rest of the loop body adds to the local \<^verbatim>\<open>score\<close>, which \<open>pieces\<close> returns
  and which no member of the evaluation object depends on.
\<close>

definition pieces_step ::
  "('w::len) env \<Rightarrow> 'w position \<Rightarrow> color \<Rightarrow> piece_type \<Rightarrow> square \<Rightarrow> 'w evaluation \<Rightarrow> 'w evaluation" where
  "pieces_step X pos Us Pt s e0 =
     (let Them = flip_color Us;
          b = piece_attacks X pos Us Pt s;
          e1 = e0\<lparr> attackedBy2 := (attackedBy2 e0)(Us :=
                 attackedBy2 e0 Us OR (attackedBy e0 Us ALL_PIECES AND b)) \<rparr>;
          e2 = e1\<lparr> attackedBy := set2 (attackedBy e1) Us Pt (attackedBy e1 Us Pt OR b) \<rparr>;
          e3 = e2\<lparr> attackedBy := set2 (attackedBy e2) Us ALL_PIECES
                 (attackedBy e2 Us ALL_PIECES OR b) \<rparr>;
          e4 = (if b AND kingRing e3 Them \<noteq> 0
                then e3\<lparr> kingAttackersCount := (kingAttackersCount e3)(Us :=
                            map_option (\<lambda>n. n + 1) (kingAttackersCount e3 Us)),
                          kingAttackersWeight := (kingAttackersWeight e3)(Us :=
                            map_option (\<lambda>n. n + tab_at KingAttackWeights 0 (int (min Pt QUEEN)))
                              (kingAttackersWeight e3 Us)),
                          kingAttacksCount := (kingAttacksCount e3)(Us :=
                            map_option (\<lambda>n. n + popcount X (b AND attackedBy e3 Them (KING X)))
                              (kingAttacksCount e3 Us)) \<rparr>
                else e3);
          mob = popcount X (b AND mobilityArea e4 Us)
      in e4\<lparr> mobility := (mobility e4)(Us :=
              sc_add (mobility e4 Us)
                (if Pt \<le> QUEEN then tab_at (tab_at MobilityBonus [] (int Pt - 2)) SCORE_ZERO mob
                 else sc_div (sc_mul MaxMobility (mob - 1)) (10 + mob))) \<rparr>)"

definition eval_pieces ::
  "('w::len) env \<Rightarrow> 'w position \<Rightarrow> color \<Rightarrow> piece_type \<Rightarrow> 'w evaluation \<Rightarrow> 'w evaluation" where
  "eval_pieces X pos Us Pt e =
     fold (pieces_step X pos Us Pt) (squares X pos Us Pt)
       (e\<lparr> attackedBy := set2 (attackedBy e) Us Pt 0 \<rparr>)"

subsection \<open>hand\<close>

text \<open>\<open>hand\<close> returns \<^verbatim>\<open>SCORE_ZERO\<close> always; what it changes is the evaluation object.\<close>

definition hand ::
  "('w::len) env \<Rightarrow> 'w position \<Rightarrow> color \<Rightarrow> piece_type \<Rightarrow> 'w evaluation \<Rightarrow> 'w evaluation" where
  "hand X pos Us pt e0 =
     (let Them = flip_color Us
      in if count_in_hand pos Us pt \<noteq> 0
         then
           let b = drop_region X Us pt AND NOT (pieces pos)
                   AND (NOT (attackedBy2 e0 Them) OR attackedBy e0 Us ALL_PIECES);
               e1 = (if b AND kingRing e0 Them \<noteq> 0 \<and> pt \<noteq> SHOGI_PAWN X
                     then e0\<lparr> kingAttackersCount := (kingAttackersCount e0)(Us :=
                                 map_option (\<lambda>n. n + count_in_hand pos Us pt)
                                   (kingAttackersCount e0 Us)),
                               kingAttackersWeight := (kingAttackersWeight e0)(Us :=
                                 map_option (\<lambda>n. n + tab_at KingAttackWeights 0 (int (min pt QUEEN))
                                                    * count_in_hand pos Us pt)
                                   (kingAttackersWeight e0 Us)),
                               kingAttacksCount := (kingAttacksCount e0)(Us :=
                                 map_option (\<lambda>n. n + popcount X (b AND attackedBy e0 Them (KING X)))
                                   (kingAttacksCount e0 Us)) \<rparr>
                     else e0);
               theirHalf = board_bb X pos
                   AND NOT (forward_ranks_bb X Them
                              (relative_rank X Them (cdiv (max_rank pos - 1) 2) (max_rank pos)))
           in e1\<lparr> mobility := (mobility e1)(Us :=
                   sc_add (mobility e1 Us)
                     (sc_mul DropMobility
                        (popcount X (b AND theirHalf AND NOT (attackedBy e1 Them ALL_PIECES))))) \<rparr>
         else e0)"

subsection \<open>king\<close>

definition get_attacks ::
  "('w::len) position \<Rightarrow> 'w evaluation \<Rightarrow> color \<Rightarrow> piece_type \<Rightarrow> 'w word" where
  "get_attacks pos e c pt =
     attackedBy e c pt
     OR (if captures_to_hand pos \<and> count_in_hand pos c pt \<noteq> 0 then NOT (pieces pos) else 0)"

text \<open>
  Lines 511 to 548: the body of the loop over the piece types; the state of the loop is
  the pair of \<^verbatim>\<open>kingDanger\<close> and \<^verbatim>\<open>unsafeChecks\<close>.
\<close>

definition king_check_step ::
  "('w::len) env \<Rightarrow> 'w position \<Rightarrow> 'w evaluation \<Rightarrow> color \<Rightarrow> square \<Rightarrow> 'w word
     \<Rightarrow> piece_type \<Rightarrow> int \<times> 'w word \<Rightarrow> int \<times> 'w word" where
  "king_check_step X pos e Us ksq safe pt acc =
     (let Them = flip_color Us; kingDanger = fst acc; unsafeChecks = snd acc
      in if pt = QUEEN then
           let b = attacks_bb X Us pt ksq (pieces pos XOR pieces_c_pt pos Us QUEEN)
                   AND get_attacks pos e Them pt AND safe AND NOT (attackedBy e Us QUEEN)
                   AND board_bb X pos
           in (if b \<noteq> 0 then kingDanger + QueenSafeCheck else kingDanger, unsafeChecks)
         else if pt = ROOK \<or> pt = BISHOP \<or> pt = KNIGHT then
           let b = attacks_bb X Us pt ksq (pieces pos XOR pieces_c_pt pos Us QUEEN)
                   AND get_attacks pos e Them pt AND board_bb X pos
           in if b AND safe \<noteq> 0
              then (kingDanger + (if pt = ROOK then RookSafeCheck
                                  else if pt = BISHOP then BishopSafeCheck
                                  else KnightSafeCheck), unsafeChecks)
              else (kingDanger, unsafeChecks OR b)
         else if pt = PAWN then
           if captures_to_hand pos \<and> count_in_hand pos Them pt \<noteq> 0
           then
             let b = attacks_bb X Us pt ksq (pieces pos) AND NOT (pieces pos) AND board_bb X pos
             in if b AND safe \<noteq> 0
                then (kingDanger + OtherSafeCheck, unsafeChecks)
                else (kingDanger, unsafeChecks OR b)
           else (kingDanger, unsafeChecks)
         else if pt = SHOGI_PAWN X \<or> pt = KING X then (kingDanger, unsafeChecks)
         else
           let b = attacks_bb X Us pt ksq (pieces pos) AND get_attacks pos e Them pt
                   AND board_bb X pos
           in if b AND safe \<noteq> 0
              then (kingDanger + OtherSafeCheck, unsafeChecks)
              else (kingDanger, unsafeChecks OR b))"

text \<open>
  Lines 494 to 564: the value of \<^verbatim>\<open>kingDanger\<close> before it is turned into a score.
  \<open>kac\<close>, \<open>kaw\<close> and \<open>katc\<close> are the values read from \<^verbatim>\<open>kingAttackersCount[Them]\<close>,
  \<^verbatim>\<open>kingAttackersWeight[Them]\<close> and \<^verbatim>\<open>kingAttacksCount[Them]\<close>. \<^verbatim>\<open>kingDanger\<close> is an
  \<^verbatim>\<open>int\<close> and so is every summand and factor. Keeping the low 32 bits after each sum and
  product gives the same number as keeping them once at the end, so \<open>to_int\<close> is applied
  to the exact total. (The two quotients are taken of \<open>848\<close> or \<open>0\<close> and of nine times a
  middlegame value, which are far from the ends of the range.)
\<close>

definition king_danger_units ::
  "('w::len) env \<Rightarrow> 'w position \<Rightarrow> 'w evaluation \<Rightarrow> color \<Rightarrow> square \<Rightarrow> score
     \<Rightarrow> int \<Rightarrow> int \<Rightarrow> int \<Rightarrow> int" where
  "king_danger_units X pos e Us ksq score kac kaw katc =
     (let Them = flip_color Us;
          weak = attackedBy e Them ALL_PIECES
                 AND NOT (attackedBy2 e Us)
                 AND (NOT (attackedBy e Us ALL_PIECES) OR attackedBy e Us (KING X)
                      OR attackedBy e Us QUEEN);
          safe = NOT (pieces_c pos Them);
          safe = safe AND (NOT (attackedBy e Us ALL_PIECES) OR (weak AND attackedBy2 e Them));
          acc = fold (king_check_step X pos e Us ksq safe) (piece_types pos) (0, 0);
          kingDanger = (if max_check_count pos \<noteq> 0 then fst acc * 2 else fst acc);
          unsafeChecks = snd acc AND mobilityArea e Them
      in to_int
           (kingDanger
            + kac * kaw
            + 102 * katc * (1 + of_bool (captures_to_hand pos) + of_bool (max_check_count pos \<noteq> 0))
            + 191 * popcount X (kingRing e Us AND weak)
                  * (1 + of_bool (captures_to_hand pos) + of_bool (max_check_count pos \<noteq> 0))
            + 143 * popcount X (blockers_for_king pos Us OR unsafeChecks)
            - cdiv (848 * of_bool (\<not> (count_c pos QUEEN Them \<noteq> 0 \<or> captures_to_hand pos)))
                   (1 + of_bool (max_check_count pos \<noteq> 0))
            - cdiv (9 * mg_value score) 8
            + 40))"

text \<open>
  Lines 567 to 572: the danger units are turned into a score and subtracted. The sum
  \<^verbatim>\<open>kingDanger + mobilityDanger\<close> and the square \<^verbatim>\<open>kingDanger * kingDanger\<close> are computed on
  ints: from \<open>kingDanger = 46341\<close> on the square no longer fits, and what is divided by
  4096 is the number that the low 32 bits of the square stand for.
\<close>

definition king_danger_score :: "('w::len) evaluation \<Rightarrow> color \<Rightarrow> int \<Rightarrow> score \<Rightarrow> score" where
  "king_danger_score e Us kingDanger score =
     (if kingDanger > 0
      then
        let mobilityDanger = mg_value (sc_sub (mobility e (flip_color Us)) (mobility e Us));
            kingDanger = max 0 (to_int (kingDanger + mobilityDanger))
        in sc_sub score (make_score (min (cdiv (to_int (kingDanger * kingDanger)) 4096) 3000)
                                    (cdiv kingDanger 16))
      else score)"

text \<open>Line 492: the condition of the main king safety evaluation.\<close>

definition king_danger_guard :: "('w::len) position \<Rightarrow> color \<Rightarrow> int \<Rightarrow> bool" where
  "king_danger_guard pos Us kac =
     (kac > 1 - count_c pos QUEEN (flip_color Us) \<or> captures_to_hand pos)"

text \<open>
  Lines 489 to 573: the score after the main king safety evaluation. Reading a counter
  that was never assigned gives \<open>None\<close>.
\<close>

definition king_main ::
  "('w::len) env \<Rightarrow> 'w position \<Rightarrow> 'w evaluation \<Rightarrow> color \<Rightarrow> square \<Rightarrow> score
     \<Rightarrow> score option" where
  "king_main X pos e Us ksq score =
     (case kingAttackersCount e (flip_color Us) of
        None \<Rightarrow> None
      | Some kac \<Rightarrow>
          if king_danger_guard pos Us kac
          then (case kingAttackersWeight e (flip_color Us) of
                  None \<Rightarrow> None
                | Some kaw \<Rightarrow>
                    (case kingAttacksCount e (flip_color Us) of
                       None \<Rightarrow> None
                     | Some katc \<Rightarrow>
                         Some (king_danger_score e Us
                                 (king_danger_units X pos e Us ksq score kac kaw katc) score)))
          else Some score)"

text \<open>Lines 575 to 588: the pawnless flank and the king tropism.\<close>

definition king_flank ::
  "('w::len) env \<Rightarrow> 'w position \<Rightarrow> 'w evaluation \<Rightarrow> color \<Rightarrow> square \<Rightarrow> score \<Rightarrow> score" where
  "king_flank X pos e Us ksq score0 =
     (let Them = flip_color Us;
          r = relative_rank X Us (min (cdiv (max_rank pos - 1) 2 + 1) (max_rank pos)) (max_rank pos);
          Camp = AllSquares XOR forward_ranks_bb X Us r;
          f = max (min (file_of X ksq) (max_file pos - 1)) FILE_B;
          kf = (if max_file pos = FILE_H then KingFlank X f
                else file_bb X f OR adjacent_files_bb X f);
          score1 = (if pieces_pt pos PAWN AND kf = 0 then sc_sub score0 PawnlessFlank else score0);
          b1 = attackedBy e Them ALL_PIECES AND kf AND Camp;
          b2 = b1 AND attackedBy2 e Them
               AND NOT (attackedBy e Us PAWN OR attackedBy e Us (SHOGI_PAWN X))
      in sc_sub score1
           (sc_mul (sc_mul CloseEnemies (popcount X b1 + popcount X b2))
              (1 + of_bool (captures_to_hand pos) + of_bool (max_check_count pos \<noteq> 0))))"

text \<open>Lines 590 to 592: for drop games the score does not depend on the game phase.\<close>

definition king_drop_collapse :: "('w::len) position \<Rightarrow> score \<Rightarrow> score" where
  "king_drop_collapse pos score =
     (if captures_to_hand pos
      then sc_div (make_score (mg_value score) (mg_value score))
                  (1 + 2 * of_bool (\<not> shogi_doubled_pawn pos))
      else score)"

definition king ::
  "('w::len) env \<Rightarrow> 'w pawn_entry \<Rightarrow> 'w position \<Rightarrow> 'w evaluation \<Rightarrow> color \<Rightarrow> score option" where
  "king X pe pos e Us =
     (if count_c pos (KING X) Us = 0 \<or> \<not> checking_permitted pos then Some SCORE_ZERO
      else
        let ksq = square_of pos (KING X) Us
        in case king_main X pos e Us ksq (king_safety pe Us ksq) of
             None \<Rightarrow> None
           | Some score \<Rightarrow> Some (king_drop_collapse pos (king_flank X pos e Us ksq score)))"

subsection \<open>passed\<close>

definition king_proximity :: "('w::len) env \<Rightarrow> 'w position \<Rightarrow> color \<Rightarrow> square \<Rightarrow> int" where
  "king_proximity X pos c s =
     (if count_c pos (KING X) c \<noteq> 0 then min (distance X (square_of pos (KING X) c) s) 5 else 5)"

text \<open>
  Lines 758 to 811: the bonus of the passed pawn on \<open>s\<close> before it is scaled down.
\<close>

definition passed_bonus ::
  "('w::len) env \<Rightarrow> 'w position \<Rightarrow> 'w evaluation \<Rightarrow> color \<Rightarrow> square \<Rightarrow> score" where
  "passed_bonus X pos e Us s =
     (let Them = flip_color Us;
          Up = (if Us = WHITE then NORTH X else - NORTH X);
          r = relative_rank_sq X Us s (max_rank pos);
          w = tab_at PassedDanger 0 r;
          bonus = tab_at PassedRank SCORE_ZERO r
      in if w \<noteq> 0
         then
           let blockSq = s + Up;
               bonus =
                 (if extinction_value X pos \<noteq> VALUE_MATE X
                  then
                    let bonus = sc_add bonus
                          (make_score 0 ((king_proximity X pos Them blockSq * 5
                                          - king_proximity X pos Us blockSq * 2) * w))
                    in if r \<noteq> RANK_7
                       then sc_sub bonus (make_score 0 (king_proximity X pos Us (blockSq + Up) * w))
                       else bonus
                  else bonus)
           in if empty_sq pos blockSq
              then
                let squaresToQueen = forward_file_bb X Us s;
                    bb = forward_file_bb X Them s AND pieces_pt2 pos ROOK QUEEN
                         AND attacks_from X pos Us ROOK s;
                    defendedSquares =
                      (if pieces_c pos Us AND bb = 0
                       then squaresToQueen AND attackedBy e Us ALL_PIECES else squaresToQueen);
                    unsafeSquares =
                      (if pieces_c pos Them AND bb = 0
                       then squaresToQueen AND (attackedBy e Them ALL_PIECES OR pieces_c pos Them)
                       else squaresToQueen);
                    k = (if unsafeSquares = 0 then 20
                         else if bb_sq X unsafeSquares blockSq = 0 then 9 else 0);
                    k = (if defendedSquares = squaresToQueen then k + 6
                         else if bb_sq X defendedSquares blockSq \<noteq> 0 then k + 4 else k)
                in sc_add bonus (make_score (k * w) (k * w))
              else if bb_sq X (pieces_c pos Us) blockSq \<noteq> 0
              then sc_add bonus (make_score (w + r * 2) (w + r * 2))
              else bonus
         else bonus)"

text \<open>Lines 813 to 817: the bonus after the scaling down of candidate passers.\<close>

definition passed_bonus_scaled ::
  "('w::len) env \<Rightarrow> 'w position \<Rightarrow> 'w evaluation \<Rightarrow> color \<Rightarrow> square \<Rightarrow> score" where
  "passed_bonus_scaled X pos e Us s =
     (let Up = (if Us = WHITE then NORTH X else - NORTH X);
          bonus = passed_bonus X pos e Us s
      in if \<not> pawn_passed X pos Us (s + Up) \<or> pieces_pt pos PAWN AND forward_file_bb X Us s \<noteq> 0
         then sc_div bonus 2
         else bonus)"

definition passed_step ::
  "('w::len) env \<Rightarrow> 'w position \<Rightarrow> 'w evaluation \<Rightarrow> color \<Rightarrow> square \<Rightarrow> score \<Rightarrow> score" where
  "passed_step X pos e Us s score =
     (let Them = flip_color Us;
          bb = forward_file_bb X Us s AND (attackedBy e Them ALL_PIECES OR pieces_c pos Them);
          score = sc_sub score (sc_mul HinderPassedPawn (popcount X bb))
      in sc_add score
           (sc_add (passed_bonus_scaled X pos e Us s) (tab_at PassedFile SCORE_ZERO (file_of X s))))"

definition passed ::
  "('w::len) env \<Rightarrow> 'w pawn_entry \<Rightarrow> 'w position \<Rightarrow> 'w evaluation \<Rightarrow> color \<Rightarrow> score" where
  "passed X pe pos e Us =
     (let score = fold (passed_step X pos e Us) (squares_of X (passed_pawns pe Us)) SCORE_ZERO;
          maxMg = fold (\<lambda>pt m. max m (PieceValueMg X pt)) (promotion_piece_types pos) 0;
          maxEg = fold (\<lambda>pt m. max m (PieceValueEg X pt)) (promotion_piece_types pos) 0
      in make_score (cdiv (mg_value score * maxMg) (QueenValueMg X))
                    (cdiv (eg_value score * maxEg) (QueenValueEg X)))"

subsection \<open>scale_factor and value\<close>

text \<open>
  \<^verbatim>\<open>Material::Entry\<close> is read through \<^verbatim>\<open>me->\<close>; each field is the value that the member
  function of this name returns for the position (\<open>me_evaluate\<close> for \<^verbatim>\<open>me->evaluate(pos)\<close>,
  \<open>me_scale_factor\<close> for \<^verbatim>\<open>me->scale_factor(pos, strongSide)\<close>).
\<close>

record material_entry =
  specialized_eval_exists :: bool
  me_evaluate :: int
  imbalance :: score
  game_phase :: int
  me_scale_factor :: "color \<Rightarrow> int"

definition VALUE_DRAW :: int where "VALUE_DRAW = 0"

definition scale_factor ::
  "('w::len) env \<Rightarrow> material_entry \<Rightarrow> 'w position \<Rightarrow> int \<Rightarrow> int" where
  "scale_factor X me pos eg =
     (let strongSide = (if eg > VALUE_DRAW then WHITE else BLACK);
          sf = me_scale_factor me strongSide
      in if sf = SCALE_FACTOR_NORMAL X \<and> \<not> captures_to_hand pos
         then if opposite_bishops X pos
              then if non_pawn_material_c pos WHITE = BishopValueMg X
                      \<and> non_pawn_material_c pos BLACK = BishopValueMg X
                   then 31 else 46
              else min (40 + 7 * count_c pos PAWN strongSide) sf
         else sf)"

text \<open>
  The scores that \<open>value\<close> adds up from the terms \<open>threats\<close>, \<open>space\<close> and \<open>variant\<close>,
  and the score returned by \<open>pieces\<close>, are taken as given: \<open>pieces_score c pt\<close> is the
  score that \<^verbatim>\<open>pieces<c>(pt)\<close> returns, and so on. None of these functions writes to the
  evaluation object, except \<open>pieces\<close> as modelled by \<open>eval_pieces\<close>.
\<close>

record term_scores =
  pieces_score :: "color \<Rightarrow> piece_type \<Rightarrow> score"
  threats :: "color \<Rightarrow> score"
  space :: "color \<Rightarrow> score"
  variant_score :: "color \<Rightarrow> score"

text \<open>
  Lines 1054 to 1067: the evaluation object after both \<open>initialize\<close>, the calls of
  \<open>pieces\<close> for the piece types from \<^verbatim>\<open>KNIGHT\<close> up to \<^verbatim>\<open>KING\<close>, and the calls of \<open>hand\<close>.
\<close>

definition attack_tables ::
  "('w::len) env \<Rightarrow> 'w pawn_entry \<Rightarrow> 'w position \<Rightarrow> 'w evaluation \<Rightarrow> 'w evaluation" where
  "attack_tables X pe pos mem =
     (let e = initialize X pe pos BLACK (initialize X pe pos WHITE (new_evaluation mem));
          e = fold (\<lambda>pt e. eval_pieces X pos BLACK pt (eval_pieces X pos WHITE pt e))
                [KNIGHT..<KING X] e
      in if piece_drops pos
         then fold (\<lambda>pt e. hand X pos BLACK pt (hand X pos WHITE pt e)) [PAWN..<KING X] e
         else e)"

text \<open>
  Lines 1043 to 1082: the interpolated value from White's point of view; \<open>None\<close> when a
  counter is read that was never assigned.
\<close>

definition white_value ::
  "('w::len) env \<Rightarrow> material_entry \<Rightarrow> 'w pawn_entry \<Rightarrow> term_scores \<Rightarrow> 'w position
     \<Rightarrow> 'w evaluation \<Rightarrow> int option" where
  "white_value X me pe ts pos mem =
     (let score = psq_score pos;
          score = sc_add score (sc_add (imbalance me) (contempt pos));
          score = sc_add score (sc_sub (pawn_score pe WHITE) (pawn_score pe BLACK));
          e = attack_tables X pe pos mem;
          score = fold (\<lambda>pt sc. sc_add sc (sc_sub (pieces_score ts WHITE pt) (pieces_score ts BLACK pt)))
                    [KNIGHT..<KING X] score;
          score = sc_add score
                    (sc_mul (sc_sub (mobility e WHITE) (mobility e BLACK))
                       (1 + of_bool (captures_to_hand pos) + of_bool (must_capture pos)))
      in case king X pe pos e WHITE of
           None \<Rightarrow> None
         | Some kw \<Rightarrow>
             (case king X pe pos e BLACK of
                None \<Rightarrow> None
              | Some kb \<Rightarrow>
                  let score = sc_add score
                        (sc_add (sc_add (sc_add (sc_add
                           (sc_sub kw kb)
                           (sc_sub (threats ts WHITE) (threats ts BLACK)))
                           (sc_sub (passed X pe pos e WHITE) (passed X pe pos e BLACK)))
                           (sc_sub (space ts WHITE) (space ts BLACK)))
                           (sc_sub (variant_score ts WHITE) (variant_score ts BLACK)));
                      score = sc_add score (initiative X pe pos (eg_value score));
                      sf = scale_factor X me pos (eg_value score);
                      v = mg_value score * game_phase me
                          + cdiv (eg_value score * (PHASE_MIDGAME X - game_phase me) * sf)
                                 (SCALE_FACTOR_NORMAL X)
                  in Some (cdiv v (PHASE_MIDGAME X))))"

text \<open>
  \<open>value\<close>: lines 1037 and 1038, and the return at lines 1093 and 1094. \<open>evaluate\<close> is
  \<open>value\<close> on a new evaluation object.
\<close>

definition eval_value ::
  "('w::len) env \<Rightarrow> material_entry \<Rightarrow> 'w pawn_entry \<Rightarrow> term_scores \<Rightarrow> 'w position
     \<Rightarrow> 'w evaluation \<Rightarrow> int option" where
  "eval_value X me pe ts pos mem =
     (if specialized_eval_exists me then Some (me_evaluate me)
      else case white_value X me pe ts pos mem of
             None \<Rightarrow> None
           | Some v \<Rightarrow> Some ((if side_to_move pos = WHITE then v else - v) + tempo_value X pos))"

definition evaluate ::
  "('w::len) env \<Rightarrow> material_entry \<Rightarrow> 'w pawn_entry \<Rightarrow> term_scores \<Rightarrow> 'w position
     \<Rightarrow> 'w evaluation \<Rightarrow> int option" where
  "evaluate X me pe ts pos mem = eval_value X me pe ts pos mem"

section \<open>Auxiliary definitions\<close>

text \<open>
  Names for parts of \<open>initialize\<close> that the lemmas below refer to: the value assigned to
  \<^verbatim>\<open>attackedBy[Us][KING]\<close>, and the value assigned to \<^verbatim>\<open>kingRing[Us]\<close> when the king
  safety tables are used.
\<close>

definition king_attacks :: "('w::len) env \<Rightarrow> 'w position \<Rightarrow> color \<Rightarrow> 'w word" where
  "king_attacks X pos Us =
     (if count_c pos (KING X) Us \<noteq> 0
      then attacks_from X pos Us (KING X) (square_of pos (KING X) Us) else 0)"

definition king_ring :: "('w::len) env \<Rightarrow> 'w position \<Rightarrow> color \<Rightarrow> 'w word" where
  "king_ring X pos Us =
     (let Up = (if Us = WHITE then NORTH X else - NORTH X);
          kr0 = king_attacks X pos Us;
          kr1 = (if relative_rank_sq X Us (square_of pos (KING X) Us) (max_rank pos) = RANK_1
                 then kr0 OR shift X Up kr0 else kr0);
          kr2 = (if file_of X (square_of pos (KING X) Us) = max_file pos
                 then kr1 OR shift X WEST kr1
                 else if file_of X (square_of pos (KING X) Us) = FILE_A
                 then kr1 OR shift X EAST kr1
                 else kr1)
      in kr2 AND board_bb X pos)"

text \<open>
  The state of the counters of the attackers of the king of \<open>Us\<close> that \<open>initialize\<close>
  establishes and that \<open>pieces\<close> and \<open>hand\<close> keep: either the tables are used and all
  three counters are assigned, or the king ring is empty and the number of attackers is 0.
\<close>

definition counters_ready :: "('w::len) env \<Rightarrow> 'w position \<Rightarrow> color \<Rightarrow> 'w evaluation \<Rightarrow> bool" where
  "counters_ready X pos Us e =
     (if king_safety_used X pos Us
      then kingAttackersCount e (flip_color Us) \<noteq> None
           \<and> kingAttackersWeight e (flip_color Us) \<noteq> None
           \<and> kingAttacksCount e (flip_color Us) \<noteq> None
      else kingRing e Us = 0 \<and> kingAttackersCount e (flip_color Us) = Some 0)"

section \<open>A sample instance: chess on the 8x8 board\<close>

text \<open>
  The examples below run the evaluator on concrete positions. They use the usual 8x8
  encoding: square \<open>8 * rank + file\<close>, bit \<open>s\<close> of a bitboard for square \<open>s\<close>,
  \<^verbatim>\<open>NORTH = 8\<close>, and attacks computed by walking the rays of a piece: \<open>ray ks f r df dr occ\<close>
  collects the squares at the distances \<open>ks\<close> from file \<open>f\<close> and rank \<open>r\<close> in the direction
  \<open>(df, dr)\<close> up to the edge of the board or the first occupied square.
\<close>

definition sq_bit :: "int \<Rightarrow> 64 word" where
  "sq_bit s = (if 0 \<le> s \<and> s < 64 then push_bit (nat s) 1 else 0)"

definition bb_of :: "int list \<Rightarrow> 64 word" where
  "bb_of ss = fold (\<lambda>s b. b OR sq_bit s) ss 0"

definition s_file_bb :: "int \<Rightarrow> 64 word" where
  "s_file_bb f = (if 0 \<le> f \<and> f < 8 then push_bit (nat f) 0x0101010101010101 else 0)"

definition s_rank_bb :: "int \<Rightarrow> 64 word" where
  "s_rank_bb r = (if 0 \<le> r \<and> r < 8 then push_bit (nat (8 * r)) 0xFF else 0)"

definition s_forward_ranks_bb :: "color \<Rightarrow> int \<Rightarrow> 64 word" where
  "s_forward_ranks_bb c r =
     (if c = WHITE then NOT (mask (nat (8 * (r + 1)))) else mask (nat (8 * r)))"

definition s_shift :: "int \<Rightarrow> 64 word \<Rightarrow> 64 word" where
  "s_shift d b =
     (if d = 8 then push_bit 8 b
      else if d = - 8 then drop_bit 8 b
      else if d = 1 then push_bit 1 (b AND NOT (s_file_bb 7))
      else if d = - 1 then drop_bit 1 (b AND NOT (s_file_bb 0))
      else if d = 9 then push_bit 9 (b AND NOT (s_file_bb 7))
      else if d = 7 then push_bit 7 (b AND NOT (s_file_bb 0))
      else if d = - 7 then drop_bit 7 (b AND NOT (s_file_bb 7))
      else if d = - 9 then drop_bit 9 (b AND NOT (s_file_bb 0))
      else 0)"

fun ray :: "int list \<Rightarrow> int \<Rightarrow> int \<Rightarrow> int \<Rightarrow> int \<Rightarrow> 64 word \<Rightarrow> 64 word" where
  "ray [] f r df dr occ = 0"
| "ray (k # ks) f r df dr occ =
     (if f + k * df < 0 \<or> 7 < f + k * df \<or> r + k * dr < 0 \<or> 7 < r + k * dr then 0
      else if occ AND sq_bit (8 * (r + k * dr) + (f + k * df)) \<noteq> 0
           then sq_bit (8 * (r + k * dr) + (f + k * df))
      else sq_bit (8 * (r + k * dr) + (f + k * df)) OR ray ks f r df dr occ)"

definition rays :: "int list \<Rightarrow> (int \<times> int) list \<Rightarrow> square \<Rightarrow> 64 word \<Rightarrow> 64 word" where
  "rays ks ds s occ = fold (\<lambda>(df, dr) b. b OR ray ks (s mod 8) (s div 8) df dr occ) ds 0"

definition slide :: "int list" where
  "slide = [1, 2, 3, 4, 5, 6, 7]"

definition diag_dirs :: "(int \<times> int) list" where
  "diag_dirs = [(1, 1), (1, - 1), (- 1, 1), (- 1, - 1)]"

definition orth_dirs :: "(int \<times> int) list" where
  "orth_dirs = [(0, 1), (0, - 1), (1, 0), (- 1, 0)]"

definition knight_dirs :: "(int \<times> int) list" where
  "knight_dirs = [(1, 2), (2, 1), (2, - 1), (1, - 2), (- 1, - 2), (- 2, - 1), (- 2, 1), (- 1, 2)]"

definition s_attacks_bb_tmpl :: "piece_type \<Rightarrow> square \<Rightarrow> 64 word \<Rightarrow> 64 word" where
  "s_attacks_bb_tmpl pt s occ =
     (if pt = BISHOP then rays slide diag_dirs s occ
      else if pt = ROOK then rays slide orth_dirs s occ
      else if pt = QUEEN then rays slide diag_dirs s occ OR rays slide orth_dirs s occ
      else 0)"

definition s_attacks_bb :: "color \<Rightarrow> piece_type \<Rightarrow> square \<Rightarrow> 64 word \<Rightarrow> 64 word" where
  "s_attacks_bb c pt s occ =
     (if pt = PAWN then rays [1] (if c = WHITE then [(1, 1), (- 1, 1)] else [(1, - 1), (- 1, - 1)]) s occ
      else if pt = KNIGHT then rays [1] knight_dirs s occ
      else if pt = 7 then rays [1] (diag_dirs @ orth_dirs) s occ
      else s_attacks_bb_tmpl pt s occ)"

definition s_moves_bb :: "color \<Rightarrow> piece_type \<Rightarrow> square \<Rightarrow> 64 word \<Rightarrow> 64 word" where
  "s_moves_bb c pt s occ =
     (if pt = PAWN then rays [1] (if c = WHITE then [(0, 1)] else [(0, - 1)]) s occ
      else s_attacks_bb c pt s occ)"

definition s_line_bb :: "square \<Rightarrow> square \<Rightarrow> 64 word" where
  "s_line_bb s1 s2 =
     (if s1 = s2 \<or> \<not> (s1 mod 8 = s2 mod 8 \<or> s1 div 8 = s2 div 8
                        \<or> \<bar>s1 mod 8 - s2 mod 8\<bar> = \<bar>s1 div 8 - s2 div 8\<bar>) then 0
      else bb_of (filter (\<lambda>t. (t mod 8 - s1 mod 8) * (s2 div 8 - s1 div 8)
                              = (t div 8 - s1 div 8) * (s2 mod 8 - s1 mod 8))
                         (map int [0..<64])))"

definition s_popcount :: "64 word \<Rightarrow> int" where
  "s_popcount b = int (length (filter (bit b) [0..<64]))"

definition s_squares_of :: "64 word \<Rightarrow> square list" where
  "s_squares_of b = map int (filter (bit b) [0..<64])"

definition s_adjacent_files_bb :: "int \<Rightarrow> 64 word" where
  "s_adjacent_files_bb f = s_file_bb (f - 1) OR s_file_bb (f + 1)"

definition s_forward_file_bb :: "color \<Rightarrow> square \<Rightarrow> 64 word" where
  "s_forward_file_bb c s = s_forward_ranks_bb c (s div 8) AND s_file_bb (s mod 8)"

definition s_passed_pawn_mask :: "color \<Rightarrow> square \<Rightarrow> 64 word" where
  "s_passed_pawn_mask c s =
     s_forward_ranks_bb c (s div 8)
     AND (s_file_bb (s mod 8 - 1) OR s_file_bb (s mod 8) OR s_file_bb (s mod 8 + 1))"

definition s_board_size_bb :: "int \<Rightarrow> int \<Rightarrow> 64 word" where
  "s_board_size_bb f r = bb_of (filter (\<lambda>t. t mod 8 \<le> f \<and> t div 8 \<le> r) (map int [0..<64]))"

definition s_relative_rank :: "color \<Rightarrow> int \<Rightarrow> int \<Rightarrow> int" where
  "s_relative_rank c r m = (if c = WHITE then r else m - r)"

definition s_distance :: "square \<Rightarrow> square \<Rightarrow> int" where
  "s_distance a b = max \<bar>a mod 8 - b mod 8\<bar> \<bar>a div 8 - b div 8\<bar>"

definition s_piece_value_mg :: "piece_type \<Rightarrow> int" where
  "s_piece_value_mg pt =
     (if pt = PAWN then 171 else if pt = KNIGHT then 764 else if pt = BISHOP then 826
      else if pt = ROOK then 1282 else if pt = QUEEN then 2526 else 0)"

definition s_piece_value_eg :: "piece_type \<Rightarrow> int" where
  "s_piece_value_eg pt =
     (if pt = PAWN then 240 else if pt = KNIGHT then 848 else if pt = BISHOP then 891
      else if pt = ROOK then 1373 else if pt = QUEEN then 2646 else 0)"

definition s_convert_mate_value :: "int \<Rightarrow> int \<Rightarrow> int" where
  "s_convert_mate_value v ply =
     (if v = 32000 then 32000 - ply else if v = - 32000 then - 32000 + ply else v)"

definition chess_env :: "64 env" where
  "chess_env = \<lparr>
     KING = 7, SHOGI_PAWN = 6, SQ_NONE = 64, NORTH = 8, Tempo = 20,
     VALUE_NONE = 32002, VALUE_MATE = 32000,
     SCALE_FACTOR_NORMAL = 64, PHASE_MIDGAME = 128,
     KnightValueMg = 764, BishopValueMg = 826, RookValueMg = 1282,
     QueenValueMg = 2526, QueenValueEg = 2646,
     PieceValueMg = s_piece_value_mg,
     PieceValueEg = s_piece_value_eg,
     convert_mate_value = s_convert_mate_value,
     FileABB = s_file_bb 0, FileBBB = s_file_bb 1, FileCBB = s_file_bb 2,
     FileDBB = s_file_bb 3, FileEBB = s_file_bb 4, FileFBB = s_file_bb 5,
     FileGBB = s_file_bb 6, FileHBB = s_file_bb 7,
     SquareBB = sq_bit,
     LineBB = s_line_bb,
     popcount = s_popcount,
     squares_of = s_squares_of,
     shift = s_shift,
     rank_bb = s_rank_bb,
     file_bb = s_file_bb,
     adjacent_files_bb = s_adjacent_files_bb,
     forward_ranks_bb = s_forward_ranks_bb,
     forward_file_bb = s_forward_file_bb,
     passed_pawn_mask = s_passed_pawn_mask,
     board_size_bb = s_board_size_bb,
     relative_rank = s_relative_rank,
     relative_rank_sq = (\<lambda>c s. s_relative_rank c (s div 8)),
     file_of = (\<lambda>s. s mod 8),
     distance = s_distance,
     distance_file = (\<lambda>a b. \<bar>a mod 8 - b mod 8\<bar>),
     distance_rank = (\<lambda>a b. \<bar>a div 8 - b div 8\<bar>),
     attacks_bb = s_attacks_bb,
     moves_bb = s_moves_bb,
     attacks_bb_tmpl = s_attacks_bb_tmpl,
     drop_region = (\<lambda>c pt. NOT 0),
     opposite_colors = (\<lambda>a b. (a mod 8 + a div 8 + b mod 8 + b div 8) mod 2 = 1) \<rparr>"

text \<open>
  A position is set up from the list of its pieces, (square, colour, piece type) each, as
  \<^verbatim>\<open>Position::set\<close> does with \<^verbatim>\<open>put_piece\<close>: the board, the bitboards by type and
  colour, the counts and the piece lists all come from this one list. The non-pawn
  material is the middlegame value of the pieces other than pawns and kings.
\<close>

definition setup_position ::
  "variant \<Rightarrow> color \<Rightarrow> (square \<times> color \<times> piece_type) list \<Rightarrow> (color \<Rightarrow> 64 word)
     \<Rightarrow> (color \<Rightarrow> piece_type \<Rightarrow> int) \<Rightarrow> 64 position" where
  "setup_position v stm ps blockers inhand = \<lparr>
     board = map_of ps,
     byTypeBB = (\<lambda>pt. bb_of (map fst (filter (\<lambda>(s, c, t). pt = ALL_PIECES \<or> t = pt) ps))),
     byColorBB = (\<lambda>c. bb_of (map fst (filter (\<lambda>(s, c', t). c' = c) ps))),
     pieceCount = (\<lambda>c pt. int (length (filter (\<lambda>(s, c', t). c' = c \<and> (pt = ALL_PIECES \<or> t = pt)) ps))),
     pieceList = (\<lambda>c pt i. let l = map fst (filter (\<lambda>(s, c', t). c' = c \<and> t = pt) ps)
                           in if i < length l then l ! i else 64),
     sideToMove = stm,
     st = \<lparr> psq = SCORE_ZERO,
            nonPawnMaterial =
               (\<lambda>c. sum_list (map (\<lambda>(s, c', t). if c' = c \<and> t \<noteq> PAWN \<and> t \<noteq> 7
                                                then s_piece_value_mg t else 0) ps)),
            checksGiven = (\<lambda>c. 0),
            blockersForKing = blockers \<rparr>,
     var = v,
     pieceCountInHand = inhand,
     contempt = SCORE_ZERO \<rparr>"

definition chess_variant :: variant where
  "chess_variant = \<lparr>
     maxRank = 7, maxFile = 7, pieceTypes = [PAWN, KNIGHT, BISHOP, ROOK, QUEEN, 7],
     promotionPieceTypes = [QUEEN, ROOK, BISHOP, KNIGHT],
     promotedPieceType = (\<lambda>pt. NO_PIECE_TYPE),
     checking = True, mustCapture = False, pieceDrops = False, capturesToHand = False,
     shogiDoubledPawn = True, extinctionValue = 32002, maxCheckCount = 0, connectN = 0 \<rparr>"

text \<open>
  Chess with drops: captures go to hand. The argument is the value of
  \<^verbatim>\<open>shogiDoubledPawn\<close>.
\<close>

definition drop_variant :: "bool \<Rightarrow> variant" where
  "drop_variant sdp =
     chess_variant \<lparr> pieceDrops := True, capturesToHand := True, shogiDoubledPawn := sdp \<rparr>"

text \<open>Chess with mandatory captures.\<close>

definition losers_variant :: variant where
  "losers_variant = chess_variant \<lparr> mustCapture := True \<rparr>"

text \<open>An evaluation object whose memory is all zero before the constructor runs.\<close>

definition zero_mem :: "64 evaluation" where
  "zero_mem = \<lparr> mobilityArea = (\<lambda>c. 0), mobility = (\<lambda>c. SCORE_ZERO),
       attackedBy = (\<lambda>c pt. 0), attackedBy2 = (\<lambda>c. 0), kingRing = (\<lambda>c. 0),
       kingAttackersCount = (\<lambda>c. None), kingAttackersWeight = (\<lambda>c. None),
       kingAttacksCount = (\<lambda>c. None) \<rparr>"

definition plain_material :: material_entry where
  "plain_material = \<lparr> specialized_eval_exists = False, me_evaluate = 0, imbalance = SCORE_ZERO,
       game_phase = 0, me_scale_factor = (\<lambda>c. 64) \<rparr>"

definition no_terms :: term_scores where
  "no_terms = \<lparr> pieces_score = (\<lambda>c pt. SCORE_ZERO), threats = (\<lambda>c. SCORE_ZERO),
       space = (\<lambda>c. SCORE_ZERO), variant_score = (\<lambda>c. SCORE_ZERO) \<rparr>"

text \<open>
  White: Ke1, pawn e2; Black: Ke8; White to move. \<open>kpk\<close> under the rules of chess,
  \<open>kpk_drop\<close> with drops, \<open>kpk_pe\<close> the pawn entry: the white pawn attacks d3 and f3 and
  is passed.
\<close>

definition kpk_pieces :: "(square \<times> color \<times> piece_type) list" where
  "kpk_pieces = [(4, WHITE, 7), (12, WHITE, PAWN), (60, BLACK, 7)]"

definition kpk :: "64 position" where
  "kpk = setup_position chess_variant WHITE kpk_pieces (\<lambda>c. 0) (\<lambda>c pt. 0)"

definition kpk_drop :: "bool \<Rightarrow> 64 position" where
  "kpk_drop sdp = setup_position (drop_variant sdp) WHITE kpk_pieces (\<lambda>c. 0) (\<lambda>c pt. 0)"

definition kpk_pe :: "64 pawn_entry" where
  "kpk_pe = \<lparr> pawn_score = (\<lambda>c. SCORE_ZERO),
       pawn_attacks = (\<lambda>c. if c = WHITE then bb_of [19, 21] else 0),
       passed_pawns = (\<lambda>c. if c = WHITE then bb_of [12] else 0),
       pawn_asymmetry = 1,
       king_safety = (\<lambda>c s. if c = WHITE then Score 30 (- 16) else Score 5 (- 80)) \<rparr>"

text \<open>
  White: Kg1, Qf1; Black: Kh8, pawns f6, g7, h7; Black to move. The queen attacks the
  pawn f6, which is in the ring of the black king and defended by the pawn g7.
\<close>

definition qk_kppp :: "64 position" where
  "qk_kppp = setup_position chess_variant BLACK
       [(6, WHITE, 7), (5, WHITE, QUEEN), (63, BLACK, 7),
        (45, BLACK, PAWN), (54, BLACK, PAWN), (55, BLACK, PAWN)] (\<lambda>c. 0) (\<lambda>c pt. 0)"

definition qk_kppp_pe :: "64 pawn_entry" where
  "qk_kppp_pe = \<lparr> pawn_score = (\<lambda>c. SCORE_ZERO),
       pawn_attacks = (\<lambda>c. if c = BLACK then bb_of [36, 38, 45, 47, 46] else 0),
       passed_pawns = (\<lambda>c. if c = BLACK then bb_of [45, 54, 55] else 0),
       pawn_asymmetry = 3,
       king_safety = (\<lambda>c s. if c = BLACK then Score 48 (- 16) else Score 5 0) \<rparr>"

text \<open>White: Ke1, Qd1, pawn e2; Black: Ke8; captures are mandatory.\<close>

definition kqpk_losers :: "64 position" where
  "kqpk_losers = setup_position losers_variant WHITE
       [(4, WHITE, 7), (3, WHITE, QUEEN), (12, WHITE, PAWN), (60, BLACK, 7)]
       (\<lambda>c. 0) (\<lambda>c pt. 0)"

text \<open>
  White: Ke1, pawns d4, e5; Black: Ke8, pawn e6; White to move. The pawn e5 is blocked by
  the pawn e6 and is in the passed pawns of the pawn entry, as a candidate that the pawn
  d4 supports.
\<close>

definition blocked_passer :: "64 position" where
  "blocked_passer = setup_position chess_variant WHITE
       [(4, WHITE, 7), (27, WHITE, PAWN), (36, WHITE, PAWN), (60, BLACK, 7), (44, BLACK, PAWN)]
       (\<lambda>c. 0) (\<lambda>c pt. 0)"

definition blocked_passer_pe :: "64 pawn_entry" where
  "blocked_passer_pe = \<lparr> pawn_score = (\<lambda>c. SCORE_ZERO),
       pawn_attacks = (\<lambda>c. if c = WHITE then bb_of [34, 36, 43, 45] else bb_of [35, 37]),
       passed_pawns = (\<lambda>c. if c = WHITE then bb_of [36] else 0),
       pawn_asymmetry = 1,
       king_safety = (\<lambda>c s. SCORE_ZERO) \<rparr>"

text \<open>
  White: Ke1, Be2, Rd1, Qd4; Black: Kg8, Re8; White to move. The bishop e2 is pinned to
  its king by the rook e8; the rook d1 stands behind its queen.
\<close>

definition battery :: "64 position" where
  "battery = setup_position chess_variant WHITE
       [(4, WHITE, 7), (12, WHITE, BISHOP), (3, WHITE, ROOK), (27, WHITE, QUEEN),
        (62, BLACK, 7), (60, BLACK, ROOK)]
       (\<lambda>c. if c = WHITE then bb_of [12] else 0) (\<lambda>c pt. 0)"

text \<open>
  White: Ke1, Qe2; Black: Kg8, Re8; White to move. The queen e2 is pinned to its king by
  the rook e8.
\<close>

definition pinned_queen :: "64 position" where
  "pinned_queen = setup_position chess_variant WHITE
       [(4, WHITE, 7), (12, WHITE, QUEEN), (62, BLACK, 7), (60, BLACK, ROOK)]
       (\<lambda>c. if c = WHITE then bb_of [12] else 0) (\<lambda>c pt. 0)"

section \<open>Properties\<close>

subsection \<open>Basic facts\<close>

lemmas position_defs =
  max_rank_def max_file_def board_bb_def piece_types_def promotion_piece_types_def
  checking_permitted_def must_capture_def piece_drops_def captures_to_hand_def
  shogi_doubled_pawn_def extinction_value_def max_check_count_def connect_n_def
  count_in_hand_def pieces_def pieces_pt_def pieces_pt2_def pieces_c_def
  pieces_c_pt_def pieces_c_pt2_def empty_sq_def count_c_def count_all_def square_of_def
  attacks_from_def moves_from_def blockers_for_king_def pawn_passed_def side_to_move_def
  non_pawn_material_c_def non_pawn_material_def psq_score_def opposite_bishops_def

lemmas piece_defs =
  NO_PIECE_TYPE_def ALL_PIECES_def PAWN_def KNIGHT_def BISHOP_def ROOK_def QUEEN_def

lemma flip_color_neq [simp]: "flip_color c \<noteq> c" "c \<noteq> flip_color c"
  by (cases c; simp)+

lemma flip_color_flip [simp]: "flip_color (flip_color c) = c"
  by (cases c) simp_all

lemma set2_apply: "set2 f a b v a' b' = (if a' = a \<and> b' = b then v else f a' b')"
  by (simp add: set2_def)

lemma cdiv_nonneg: "0 \<le> a \<Longrightarrow> 0 < b \<Longrightarrow> cdiv a b = a div b"
  by (cases "a = 0") (simp_all add: cdiv_def sgn_if)

lemma to_int_id: "- 2147483648 \<le> x \<Longrightarrow> x < 2147483648 \<Longrightarrow> to_int x = x"
  by (simp add: to_int_def sint_sbintrunc' signed_take_bit_int_eq_self)

lemma to_int_square:
  assumes "0 \<le> k" and "k \<le> 46340"
  shows "to_int (k * k) = k * k"
proof -
  from assms have "k * k \<le> 46340 * 46340" by (intro mult_mono) simp_all
  moreover from assms have "0 \<le> k * k" by simp
  ultimately show ?thesis by (intro to_int_id) linarith+
qed

lemma not_or_and_zero:
  fixes a b c d :: "'w::len word"
  shows "NOT (a OR b OR c OR d) AND (a OR b) = 0"
  by (auto simp: bit_eq_iff bit_and_iff bit_or_iff bit_not_iff)

subsection \<open>initialize, member by member\<close>

lemma initialize_mobilityArea:
  "mobilityArea (initialize X pe pos Us e) c =
     (if c = Us
      then (if must_capture pos then AllSquares
            else NOT (low_or_blocked_pawns X pos Us OR pieces_c_pt2 pos Us (KING X) QUEEN
                      OR pawn_attacks pe (flip_color Us)
                      OR shift X (if Us = WHITE then - NORTH X else NORTH X)
                           (pieces_c_pt pos (flip_color Us) (SHOGI_PAWN X))))
      else mobilityArea e c)"
  by (simp add: initialize_def Let_def)

lemma initialize_mobility: "mobility (initialize X pe pos Us e) = mobility e"
  by (simp add: initialize_def Let_def)

lemma initialize_attackedBy:
  "QUEEN < KING X \<Longrightarrow>
   attackedBy (initialize X pe pos Us e) c pt =
     (if c = Us \<and> pt = ALL_PIECES then king_attacks X pos Us OR pawn_attacks pe Us
      else if c = Us \<and> pt = PAWN then pawn_attacks pe Us
      else if c = Us \<and> pt = KING X then king_attacks X pos Us
      else attackedBy e c pt)"
  by (auto simp add: initialize_def Let_def set2_apply king_attacks_def piece_defs)

lemma initialize_attackedBy2:
  "QUEEN < KING X \<Longrightarrow>
   attackedBy2 (initialize X pe pos Us e) c =
     (if c = Us then king_attacks X pos Us AND pawn_attacks pe Us else attackedBy2 e c)"
  by (simp add: initialize_def Let_def set2_apply king_attacks_def piece_defs)

lemma initialize_kingRing_other:
  "c \<noteq> Us \<Longrightarrow> kingRing (initialize X pe pos Us e) c = kingRing e c"
  by (simp add: initialize_def Let_def)

lemma initialize_counters_other:
  "c \<noteq> flip_color Us \<Longrightarrow> kingAttackersCount (initialize X pe pos Us e) c = kingAttackersCount e c"
  "c \<noteq> flip_color Us \<Longrightarrow> kingAttackersWeight (initialize X pe pos Us e) c = kingAttackersWeight e c"
  "c \<noteq> flip_color Us \<Longrightarrow> kingAttacksCount (initialize X pe pos Us e) c = kingAttacksCount e c"
  by (simp_all add: initialize_def Let_def)

lemma initialize_unused:
  "\<not> king_safety_used X pos Us \<Longrightarrow> kingRing (initialize X pe pos Us e) Us = 0"
  "\<not> king_safety_used X pos Us \<Longrightarrow>
     kingAttackersCount (initialize X pe pos Us e) (flip_color Us) = Some 0"
  by (simp_all add: initialize_def Let_def)

lemma initialize_used:
  "king_safety_used X pos Us \<Longrightarrow>
     kingAttackersCount (initialize X pe pos Us e) (flip_color Us) \<noteq> None"
  "king_safety_used X pos Us \<Longrightarrow>
     kingAttackersWeight (initialize X pe pos Us e) (flip_color Us) = Some 0"
  "king_safety_used X pos Us \<Longrightarrow>
     kingAttacksCount (initialize X pe pos Us e) (flip_color Us) = Some 0"
  by (simp_all add: initialize_def Let_def)

lemma initialize_kingRing:
  "QUEEN < KING X \<Longrightarrow>
   kingRing (initialize X pe pos Us e) c =
     (if c = Us then (if king_safety_used X pos Us then king_ring X pos Us else 0)
      else kingRing e c)"
  by (simp add: initialize_def Let_def set2_apply king_ring_def king_attacks_def piece_defs)

lemma initialize_kingAttackersCount:
  "QUEEN < KING X \<Longrightarrow>
   kingAttackersCount (initialize X pe pos Us e) c =
     (if c = flip_color Us
      then Some (if king_safety_used X pos Us
                 then popcount X (king_ring X pos Us AND pawn_attacks pe (flip_color Us)) else 0)
      else kingAttackersCount e c)"
  by (simp add: initialize_def Let_def set2_apply king_ring_def king_attacks_def piece_defs)

lemma initialize_kingAttackersWeight:
  "kingAttackersWeight (initialize X pe pos Us e) c =
     (if c = flip_color Us \<and> king_safety_used X pos Us then Some 0 else kingAttackersWeight e c)"
  by (simp add: initialize_def Let_def)

lemma initialize_kingAttacksCount:
  "kingAttacksCount (initialize X pe pos Us e) c =
     (if c = flip_color Us \<and> king_safety_used X pos Us then Some 0 else kingAttacksCount e c)"
  by (simp add: initialize_def Let_def)

subsection \<open>pieces and hand, member by member\<close>

lemma pieces_step_mobilityArea: "mobilityArea (pieces_step X pos Us Pt s e) = mobilityArea e"
  by (simp add: pieces_step_def Let_def)

lemma pieces_step_kingRing: "kingRing (pieces_step X pos Us Pt s e) = kingRing e"
  by (simp add: pieces_step_def Let_def)

lemma pieces_step_attackedBy:
  "Pt \<noteq> ALL_PIECES \<Longrightarrow>
   attackedBy (pieces_step X pos Us Pt s e) c pt =
     (if c = Us \<and> (pt = Pt \<or> pt = ALL_PIECES)
      then attackedBy e c pt OR piece_attacks X pos Us Pt s
      else attackedBy e c pt)"
  by (auto simp add: pieces_step_def Let_def set2_apply)

lemma pieces_step_attackedBy2:
  "attackedBy2 (pieces_step X pos Us Pt s e) c =
     (if c = Us
      then attackedBy2 e Us OR (attackedBy e Us ALL_PIECES AND piece_attacks X pos Us Pt s)
      else attackedBy2 e c)"
  by (simp add: pieces_step_def Let_def)

lemma pieces_step_kingAttackersCount:
  "kingAttackersCount (pieces_step X pos Us Pt s e) c =
     (if c = Us \<and> piece_attacks X pos Us Pt s AND kingRing e (flip_color Us) \<noteq> 0
      then map_option (\<lambda>n. n + 1) (kingAttackersCount e Us)
      else kingAttackersCount e c)"
  by (simp add: pieces_step_def Let_def)

lemma pieces_step_kingAttackersWeight:
  "kingAttackersWeight (pieces_step X pos Us Pt s e) c =
     (if c = Us \<and> piece_attacks X pos Us Pt s AND kingRing e (flip_color Us) \<noteq> 0
      then map_option (\<lambda>n. n + tab_at KingAttackWeights 0 (int (min Pt QUEEN)))
             (kingAttackersWeight e Us)
      else kingAttackersWeight e c)"
  by (simp add: pieces_step_def Let_def)

lemma pieces_step_kingAttacksCount:
  "kingAttacksCount (pieces_step X pos Us Pt s e) c =
     (if c = Us \<and> piece_attacks X pos Us Pt s AND kingRing e (flip_color Us) \<noteq> 0
      then map_option (\<lambda>n. n + popcount X (piece_attacks X pos Us Pt s
                                            AND attackedBy e (flip_color Us) (KING X)))
             (kingAttacksCount e Us)
      else kingAttacksCount e c)"
  by (simp add: pieces_step_def Let_def set2_apply)

lemma pieces_step_mobility:
  "mobility (pieces_step X pos Us Pt s e) c =
     (if c = Us
      then sc_add (mobility e Us)
             (if Pt \<le> QUEEN
              then tab_at (tab_at MobilityBonus [] (int Pt - 2)) SCORE_ZERO
                     (popcount X (piece_attacks X pos Us Pt s AND mobilityArea e Us))
              else sc_div (sc_mul MaxMobility
                             (popcount X (piece_attacks X pos Us Pt s AND mobilityArea e Us) - 1))
                          (10 + popcount X (piece_attacks X pos Us Pt s AND mobilityArea e Us)))
      else mobility e c)"
  by (simp add: pieces_step_def Let_def)

lemma eval_pieces_none:
  "squares X pos Us Pt = [] \<Longrightarrow>
     eval_pieces X pos Us Pt e = e\<lparr> attackedBy := set2 (attackedBy e) Us Pt 0 \<rparr>"
  by (simp add: eval_pieces_def)

lemma eval_pieces_one:
  "squares X pos Us Pt = [s] \<Longrightarrow>
     eval_pieces X pos Us Pt e =
       pieces_step X pos Us Pt s (e\<lparr> attackedBy := set2 (attackedBy e) Us Pt 0 \<rparr>)"
  by (simp add: eval_pieces_def)

lemma hand_empty: "count_in_hand pos Us pt = 0 \<Longrightarrow> hand X pos Us pt e = e"
  by (simp add: hand_def)

lemmas member_simps =
  initialize_mobilityArea initialize_mobility initialize_attackedBy initialize_attackedBy2
  initialize_kingRing initialize_kingAttackersCount initialize_kingAttackersWeight
  initialize_kingAttacksCount
  pieces_step_mobilityArea pieces_step_kingRing pieces_step_attackedBy pieces_step_attackedBy2
  pieces_step_kingAttackersCount pieces_step_kingAttackersWeight pieces_step_kingAttacksCount
  pieces_step_mobility set2_apply

subsection \<open>The counters of the attackers are ready when king safety is evaluated\<close>

lemma ready_initialize_self: "counters_ready X pos Us (initialize X pe pos Us e)"
  by (simp add: counters_ready_def initialize_unused initialize_used)

lemma ready_initialize_other:
  "counters_ready X pos Us e \<Longrightarrow> counters_ready X pos Us (initialize X pe pos (flip_color Us) e)"
  by (simp add: counters_ready_def initialize_kingRing_other initialize_counters_other)

lemma ready_pieces_step:
  "counters_ready X pos Us e \<Longrightarrow> counters_ready X pos Us (pieces_step X pos c Pt s e)"
  by (cases "c = Us")
     (auto simp add: counters_ready_def pieces_step_kingRing pieces_step_kingAttackersCount
        pieces_step_kingAttackersWeight pieces_step_kingAttacksCount split: if_splits)

lemma ready_fold_pieces_step:
  "counters_ready X pos Us e \<Longrightarrow> counters_ready X pos Us (fold (pieces_step X pos c Pt) ss e)"
  by (induction ss arbitrary: e) (simp_all add: ready_pieces_step)

lemma ready_eval_pieces:
  "counters_ready X pos Us e \<Longrightarrow> counters_ready X pos Us (eval_pieces X pos c Pt e)"
  unfolding eval_pieces_def
  by (rule ready_fold_pieces_step) (simp add: counters_ready_def)

lemma ready_hand:
  "counters_ready X pos Us e \<Longrightarrow> counters_ready X pos Us (hand X pos c pt e)"
  by (cases "c = Us") (auto simp add: counters_ready_def hand_def Let_def split: if_splits)

lemma ready_fold_eval_pieces:
  "counters_ready X pos Us e \<Longrightarrow>
     counters_ready X pos Us
       (fold (\<lambda>pt e. eval_pieces X pos BLACK pt (eval_pieces X pos WHITE pt e)) pts e)"
  by (induction pts arbitrary: e) (simp_all add: ready_eval_pieces)

lemma ready_fold_hand:
  "counters_ready X pos Us e \<Longrightarrow>
     counters_ready X pos Us (fold (\<lambda>pt e. hand X pos BLACK pt (hand X pos WHITE pt e)) pts e)"
  by (induction pts arbitrary: e) (simp_all add: ready_hand)

lemma ready_attack_tables: "counters_ready X pos Us (attack_tables X pe pos mem)"
proof -
  have "counters_ready X pos Us
          (initialize X pe pos BLACK (initialize X pe pos WHITE (new_evaluation mem)))"
  proof (cases Us)
    case WHITE
    then show ?thesis
      using ready_initialize_other [OF ready_initialize_self [of X pos WHITE pe "new_evaluation mem"]]
      by simp
  next
    case BLACK
    then show ?thesis by (simp add: ready_initialize_self)
  qed
  then show ?thesis
    by (simp add: attack_tables_def Let_def ready_fold_eval_pieces ready_fold_hand)
qed

lemma unused_attack_tables:
  "\<not> king_safety_used X pos Us \<Longrightarrow>
     kingAttackersCount (attack_tables X pe pos mem) (flip_color Us) = Some 0"
  using ready_attack_tables [of X pos Us pe mem] by (simp add: counters_ready_def)

subsection \<open>The sample instance, field by field\<close>

lemma chess_env_fields:
  "KING chess_env = 7" "SHOGI_PAWN chess_env = 6" "SQ_NONE chess_env = 64"
  "NORTH chess_env = 8" "Tempo chess_env = 20"
  "VALUE_NONE chess_env = 32002" "VALUE_MATE chess_env = 32000"
  "SCALE_FACTOR_NORMAL chess_env = 64" "PHASE_MIDGAME chess_env = 128"
  "KnightValueMg chess_env = 764" "BishopValueMg chess_env = 826"
  "RookValueMg chess_env = 1282" "QueenValueMg chess_env = 2526"
  "QueenValueEg chess_env = 2646"
  "PieceValueMg chess_env = s_piece_value_mg" "PieceValueEg chess_env = s_piece_value_eg"
  "convert_mate_value chess_env = s_convert_mate_value"
  "FileABB chess_env = s_file_bb 0" "FileBBB chess_env = s_file_bb 1"
  "FileCBB chess_env = s_file_bb 2" "FileDBB chess_env = s_file_bb 3"
  "FileEBB chess_env = s_file_bb 4" "FileFBB chess_env = s_file_bb 5"
  "FileGBB chess_env = s_file_bb 6" "FileHBB chess_env = s_file_bb 7"
  "SquareBB chess_env = sq_bit" "LineBB chess_env = s_line_bb"
  "popcount chess_env = s_popcount" "squares_of chess_env = s_squares_of"
  "shift chess_env = s_shift" "rank_bb chess_env = s_rank_bb" "file_bb chess_env = s_file_bb"
  "adjacent_files_bb chess_env = s_adjacent_files_bb"
  "forward_ranks_bb chess_env = s_forward_ranks_bb"
  "forward_file_bb chess_env = s_forward_file_bb"
  "passed_pawn_mask chess_env = s_passed_pawn_mask"
  "board_size_bb chess_env = s_board_size_bb"
  "relative_rank chess_env = s_relative_rank"
  "relative_rank_sq chess_env c s m = s_relative_rank c (s div 8) m"
  "file_of chess_env s = s mod 8"
  "distance chess_env = s_distance"
  "distance_file chess_env a b = \<bar>a mod 8 - b mod 8\<bar>"
  "distance_rank chess_env a b = \<bar>a div 8 - b div 8\<bar>"
  "attacks_bb chess_env = s_attacks_bb" "moves_bb chess_env = s_moves_bb"
  "attacks_bb_tmpl chess_env = s_attacks_bb_tmpl"
  "drop_region chess_env c pt = NOT 0"
  by (simp_all add: chess_env_def)

lemma setup_fields:
  "board (setup_position v stm ps bl ih) = map_of ps"
  "byTypeBB (setup_position v stm ps bl ih) pt =
     bb_of (map fst (filter (\<lambda>(s, c, t). pt = ALL_PIECES \<or> t = pt) ps))"
  "byColorBB (setup_position v stm ps bl ih) c =
     bb_of (map fst (filter (\<lambda>(s, c', t). c' = c) ps))"
  "pieceCount (setup_position v stm ps bl ih) c pt =
     int (length (filter (\<lambda>(s, c', t). c' = c \<and> (pt = ALL_PIECES \<or> t = pt)) ps))"
  "pieceList (setup_position v stm ps bl ih) c pt i =
     (let l = map fst (filter (\<lambda>(s, c', t). c' = c \<and> t = pt) ps)
      in if i < length l then l ! i else 64)"
  "sideToMove (setup_position v stm ps bl ih) = stm"
  "psq (st (setup_position v stm ps bl ih)) = SCORE_ZERO"
  "nonPawnMaterial (st (setup_position v stm ps bl ih)) c =
     sum_list (map (\<lambda>(s, c', t). if c' = c \<and> t \<noteq> PAWN \<and> t \<noteq> 7
                                  then s_piece_value_mg t else 0) ps)"
  "checksGiven (st (setup_position v stm ps bl ih)) c = 0"
  "blockersForKing (st (setup_position v stm ps bl ih)) = bl"
  "var (setup_position v stm ps bl ih) = v"
  "pieceCountInHand (setup_position v stm ps bl ih) = ih"
  "contempt (setup_position v stm ps bl ih) = SCORE_ZERO"
  by (simp_all add: setup_position_def)

lemma variant_fields:
  "maxRank chess_variant = 7" "maxFile chess_variant = 7"
  "pieceTypes chess_variant = [PAWN, KNIGHT, BISHOP, ROOK, QUEEN, 7]"
  "promotionPieceTypes chess_variant = [QUEEN, ROOK, BISHOP, KNIGHT]"
  "checking chess_variant" "\<not> mustCapture chess_variant" "\<not> pieceDrops chess_variant"
  "\<not> capturesToHand chess_variant" "shogiDoubledPawn chess_variant"
  "extinctionValue chess_variant = 32002" "maxCheckCount chess_variant = 0"
  "connectN chess_variant = 0"
  "maxRank (drop_variant sdp) = 7" "maxFile (drop_variant sdp) = 7"
  "pieceTypes (drop_variant sdp) = [PAWN, KNIGHT, BISHOP, ROOK, QUEEN, 7]"
  "promotionPieceTypes (drop_variant sdp) = [QUEEN, ROOK, BISHOP, KNIGHT]"
  "checking (drop_variant sdp)" "\<not> mustCapture (drop_variant sdp)" "pieceDrops (drop_variant sdp)"
  "capturesToHand (drop_variant sdp)" "shogiDoubledPawn (drop_variant sdp) = sdp"
  "extinctionValue (drop_variant sdp) = 32002" "maxCheckCount (drop_variant sdp) = 0"
  "connectN (drop_variant sdp) = 0"
  "maxRank losers_variant = 7" "maxFile losers_variant = 7"
  "checking losers_variant" "mustCapture losers_variant" "\<not> pieceDrops losers_variant"
  "\<not> capturesToHand losers_variant"
  by (simp_all add: chess_variant_def drop_variant_def losers_variant_def)

lemma upt64:
  "[0..<64] = concat (map (\<lambda>r. map (\<lambda>f. 8 * r + f) [0, 1, 2, 3, 4, 5, 6, 7])
                            [0, 1, 2, 3, 4, 5, 6, 7])"
  by (simp add: upt_rec)

lemma chess_piece_types: "[KNIGHT..<KING chess_env] = [2, 3, 4, 5, 6]" "[PAWN..<KING chess_env] = [1, 2, 3, 4, 5, 6]"
  by (simp_all add: chess_env_fields KNIGHT_def PAWN_def upt_rec)

lemma chess_king_last: "QUEEN < KING chess_env"
  by (simp add: chess_env_fields QUEEN_def)

lemmas sample_defs =
  chess_env_fields setup_fields variant_fields position_defs piece_defs bb_of_def sq_bit_def
  s_file_bb_def s_rank_bb_def s_forward_ranks_bb_def s_relative_rank_def

lemmas attack_defs =
  rays_def slide_def diag_dirs_def orth_dirs_def knight_dirs_def s_attacks_bb_def
  s_attacks_bb_tmpl_def s_moves_bb_def

subsection \<open>Initiative\<close>

lemma sgn_times_max_keeps_sign:
  fixes eg c :: int
  defines "v \<equiv> (of_bool (eg > 0) - of_bool (eg < 0)) * max c (- \<bar>eg\<bar>)"
  shows "sgn (eg + v) = sgn eg \<or> eg + v = 0"
proof (cases "eg = 0")
  case True
  then show ?thesis by (simp add: v_def)
next
  case False
  show ?thesis
  proof (cases "eg > 0")
    case True
    then have "v = max c (- eg)" by (simp add: v_def)
    then have "0 \<le> eg + v" by simp
    with True show ?thesis by (cases "eg + v = 0") (simp_all add: sgn_if)
  next
    case neg: False
    with False have lt: "eg < 0" by simp
    then have "v = - max c eg" by (simp add: v_def)
    then have "eg + v \<le> 0" by simp
    with lt show ?thesis by (cases "eg + v = 0") (simp_all add: sgn_if)
  qed
qed

text \<open>
  C9. For every position and every endgame value \<open>eg\<close>, \<open>initiative(eg)\<close> has middlegame
  component zero; it is \<open>SCORE_ZERO\<close> when the variant has an extinction value, captures
  go to hand, or a connect-n goal is set; and in every case the endgame component \<open>v\<close>
  is such that \<open>eg + v\<close> has the sign of \<open>eg\<close> or is zero.
\<close>

theorem initiative_keeps_sign:
  "mg_value (initiative X pe pos eg) = 0
   \<and> (extinction_value X pos \<noteq> VALUE_NONE X \<or> captures_to_hand pos \<or> connect_n pos \<noteq> 0
        \<longrightarrow> initiative X pe pos eg = SCORE_ZERO)
   \<and> (sgn (eg + eg_value (initiative X pe pos eg)) = sgn eg
        \<or> eg + eg_value (initiative X pe pos eg) = 0)"
proof -
  have a: "mg_value (initiative X pe pos eg) = 0"
    by (simp add: initiative_def SCORE_ZERO_def make_score_def Let_def)
  have b: "extinction_value X pos \<noteq> VALUE_NONE X \<or> captures_to_hand pos \<or> connect_n pos \<noteq> 0
        \<longrightarrow> initiative X pe pos eg = SCORE_ZERO"
    by (simp add: initiative_def)
  have c: "sgn (eg + eg_value (initiative X pe pos eg)) = sgn eg
        \<or> eg + eg_value (initiative X pe pos eg) = 0"
  proof (cases "extinction_value X pos \<noteq> VALUE_NONE X \<or> captures_to_hand pos \<or> connect_n pos \<noteq> 0")
    case True
    then show ?thesis by (simp add: initiative_def SCORE_ZERO_def)
  next
    case False
    then show ?thesis
      unfolding initiative_def Let_def make_score_def
      using sgn_times_max_keeps_sign by simp
  qed
  from a b c show ?thesis by blast
qed

text \<open>
  With drops the initiative is \<open>SCORE_ZERO\<close>; in the pawn ending \<open>kpk\<close> the complexity is
  \<open>- 124\<close>, and for \<open>eg = 50\<close> the correction is capped at \<open>- 50\<close>.
\<close>

theorem initiative_keeps_sign_witness:
  "initiative chess_env kpk_pe (kpk_drop True) 50 = SCORE_ZERO
   \<and> eg_value (initiative chess_env kpk_pe kpk 50) = - 50
   \<and> eg_value (initiative chess_env kpk_pe kpk 200) = - 124"
proof -
  have drops: "captures_to_hand (kpk_drop True)"
    by (simp add: kpk_drop_def sample_defs)
  have v: "eg_value (initiative chess_env kpk_pe kpk eg) =
             (of_bool (eg > 0) - of_bool (eg < 0)) * max (- 124) (- \<bar>eg\<bar>)" for eg
    by (simp add: initiative_def kpk_def kpk_pieces_def kpk_pe_def sample_defs
        s_convert_mate_value_def QueenSide_def KingSide_def make_score_def)
  from drops v [of 50] v [of 200] initiative_keeps_sign [of chess_env kpk_pe "kpk_drop True" 50]
    initiative_keeps_sign [of chess_env kpk_pe kpk 50]
  show ?thesis by simp
qed

subsection \<open>Tempo\<close>

text \<open>
  C4, as amended. \<open>tempo_value\<close> is the constant \<^verbatim>\<open>Tempo\<close> times \<open>1 + 4 * flag\<close>, where the
  flag is the captures-to-hand property of the position: \<^verbatim>\<open>Tempo\<close> without drops and five
  times \<^verbatim>\<open>Tempo\<close> with drops. When the material entry has no specialized evaluation
  function, \<open>evaluate\<close> returns the interpolated value, negated for Black to move, plus
  \<open>tempo_value\<close>; when it has one, \<open>evaluate\<close> returns the value of that function.
\<close>

theorem tempo_bonus:
  "tempo_value X pos = Tempo X * (1 + 4 * of_bool (captures_to_hand pos))
   \<and> tempo_value X pos = (if captures_to_hand pos then 5 * Tempo X else Tempo X)
   \<and> (\<not> specialized_eval_exists me \<longrightarrow>
        evaluate X me pe ts pos mem =
          map_option (\<lambda>v. (if side_to_move pos = WHITE then v else - v) + tempo_value X pos)
            (white_value X me pe ts pos mem))
   \<and> (specialized_eval_exists me \<longrightarrow> evaluate X me pe ts pos mem = Some (me_evaluate me))"
  by (simp add: tempo_value_def evaluate_def eval_value_def split: option.splits)

theorem tempo_bonus_witness:
  "tempo_value chess_env kpk = 20 \<and> tempo_value chess_env (kpk_drop True) = 100
   \<and> evaluate chess_env plain_material kpk_pe no_terms kpk zero_mem =
        map_option (\<lambda>v. v + 20) (white_value chess_env plain_material kpk_pe no_terms kpk zero_mem)"
proof -
  have a: "\<not> captures_to_hand kpk" "captures_to_hand (kpk_drop True)" "side_to_move kpk = WHITE"
    by (simp_all add: kpk_def kpk_drop_def sample_defs)
  have b: "\<not> specialized_eval_exists plain_material" by (simp add: plain_material_def)
  from a b tempo_bonus [of chess_env kpk plain_material kpk_pe no_terms zero_mem]
    tempo_bonus [of chess_env "kpk_drop True" plain_material kpk_pe no_terms zero_mem]
  show ?thesis by (simp add: chess_env_fields)
qed

text \<open>
  The claim as stated has the bonus tripled under drop variants. With drops the bonus is
  100 for \<^verbatim>\<open>Tempo = 20\<close>, five times the constant and not three times.
\<close>

theorem tempo_tripled_counterexample:
  "captures_to_hand (kpk_drop True)
   \<and> tempo_value chess_env (kpk_drop True) = 5 * Tempo chess_env
   \<and> tempo_value chess_env (kpk_drop True) \<noteq> 3 * Tempo chess_env"
  by (simp add: tempo_value_def kpk_drop_def sample_defs)

subsection \<open>Mobility area\<close>

text \<open>
  C7, as amended. For every colour and every position of a variant in which captures are
  not mandatory, the mobility area that \<open>initialize\<close> computes for the colour contains no
  square of the king or a queen of the colour and no square of a pawn of the colour that
  is blocked or on the low ranks. When captures are mandatory, the mobility area is the
  set of all squares.
\<close>

theorem mobility_area_excludes:
  "(\<not> must_capture pos \<longrightarrow>
      mobilityArea (initialize X pe pos Us e) Us
        AND (low_or_blocked_pawns X pos Us OR pieces_c_pt2 pos Us (KING X) QUEEN) = 0)
   \<and> (must_capture pos \<longrightarrow> mobilityArea (initialize X pe pos Us e) Us = AllSquares)"
proof (cases "must_capture pos")
  case True
  then show ?thesis by (simp add: initialize_mobilityArea)
next
  case False
  have "mobilityArea (initialize X pe pos Us e) Us
          AND (low_or_blocked_pawns X pos Us OR pieces_c_pt2 pos Us (KING X) QUEEN) = 0"
    unfolding initialize_mobilityArea using False
    by (simp only: if_True if_False not_or_and_zero simp_thms)
  with False show ?thesis by blast
qed

lemma kpk_low_pawns: "low_or_blocked_pawns chess_env kpk WHITE = 4096"
  by (simp add: low_or_blocked_pawns_def Let_def kpk_def kpk_pieces_def sample_defs s_shift_def
      RANK_2_def RANK_3_def)

theorem mobility_area_excludes_witness:
  "mobilityArea (initialize chess_env kpk_pe kpk WHITE (new_evaluation zero_mem)) WHITE
     AND (4096 OR pieces_c_pt2 kpk WHITE 7 QUEEN) = 0
   \<and> mobilityArea (initialize chess_env kpk_pe kqpk_losers WHITE (new_evaluation zero_mem)) WHITE
       = AllSquares"
proof -
  have a: "\<not> must_capture kpk" "must_capture kqpk_losers"
    by (simp_all add: kpk_def kqpk_losers_def sample_defs)
  from a mobility_area_excludes [of kpk chess_env kpk_pe WHITE "new_evaluation zero_mem"]
    mobility_area_excludes [of kqpk_losers chess_env kpk_pe WHITE "new_evaluation zero_mem"]
  show ?thesis by (simp add: kpk_low_pawns chess_env_fields)
qed

text \<open>
  The claim as stated includes the variants with mandatory captures. There the mobility
  area of White contains the squares of the white king (e1), of the white queen (d1) and
  of the white pawn on its second rank (e2).
\<close>

theorem mobility_area_must_capture_counterexample:
  "must_capture kqpk_losers
   \<and> pieces_c_pt2 kqpk_losers WHITE (KING chess_env) QUEEN = 24
   \<and> low_or_blocked_pawns chess_env kqpk_losers WHITE = 4096
   \<and> mobilityArea (initialize chess_env kpk_pe kqpk_losers WHITE (new_evaluation zero_mem)) WHITE
       AND (low_or_blocked_pawns chess_env kqpk_losers WHITE
            OR pieces_c_pt2 kqpk_losers WHITE (KING chess_env) QUEEN) = 4120"
proof -
  have a: "must_capture kqpk_losers"
    by (simp add: kqpk_losers_def sample_defs)
  have b: "pieces_c_pt2 kqpk_losers WHITE (KING chess_env) QUEEN = 24"
    by (simp add: kqpk_losers_def sample_defs)
  have c: "low_or_blocked_pawns chess_env kqpk_losers WHITE = 4096"
    by (simp add: low_or_blocked_pawns_def Let_def kqpk_losers_def sample_defs s_shift_def
        RANK_2_def RANK_3_def)
  from a b c show ?thesis
    by (simp add: initialize_mobilityArea AllSquares_def)
qed

subsection \<open>The guard of the danger branch\<close>

text \<open>
  C8. The danger branch of \<open>king\<close> runs exactly if the number of attackers read from
  \<^verbatim>\<open>kingAttackersCount[Them]\<close> exceeds \<open>1 - count<QUEEN>(Them)\<close> or captures go to hand. So
  when captures do not go to hand and the number of attackers is at most that threshold,
  in particular in a position with kings and pawns only where the threshold is 1, the
  branch does not run and the score stays the shelter score it started from.
\<close>

theorem king_danger_branch_guarded:
  assumes "kingAttackersCount e (flip_color Us) = Some kac"
  shows "(king_danger_guard pos Us kac
            \<longleftrightarrow> kac > 1 - count_c pos QUEEN (flip_color Us) \<or> captures_to_hand pos)
         \<and> (\<not> captures_to_hand pos \<and> kac \<le> 1 - count_c pos QUEEN (flip_color Us)
              \<longrightarrow> king_main X pos e Us ksq score = Some score)"
  using assms by (simp add: king_danger_guard_def king_main_def)

theorem king_danger_branch_guarded_witness:
  "\<not> king_danger_guard kpk WHITE 0
   \<and> king_main chess_env kpk (attack_tables chess_env kpk_pe kpk zero_mem) WHITE 4 (Score 30 (- 16))
       = Some (Score 30 (- 16))"
proof -
  have unused: "\<not> king_safety_used chess_env kpk WHITE"
    by (simp add: king_safety_used_def kpk_def kpk_pieces_def sample_defs)
  have kac: "kingAttackersCount (attack_tables chess_env kpk_pe kpk zero_mem) (flip_color WHITE)
               = Some 0"
    using unused by (rule unused_attack_tables)
  have pos: "\<not> captures_to_hand kpk" "count_c kpk QUEEN (flip_color WHITE) = 0"
    by (simp_all add: kpk_def kpk_pieces_def sample_defs)
  from pos king_danger_branch_guarded [OF kac, of kpk chess_env 4 "Score 30 (- 16)"]
  show ?thesis by simp
qed

subsection \<open>The danger branch reads assigned counters\<close>

text \<open>
  C10. \<open>initialize\<close> for \<open>Us\<close> assigns 0 to \<^verbatim>\<open>kingAttackersWeight[Them]\<close> and
  \<^verbatim>\<open>kingAttacksCount[Them]\<close> when its king safety condition holds, and leaves them as they
  are otherwise. In the evaluation object that \<open>value\<close> has built when it calls \<open>king\<close>,
  \<^verbatim>\<open>kingAttackersCount[Them]\<close> is assigned; and if \<open>Us\<close> has a king and the guard of the
  danger branch holds, then the king safety condition of \<open>initialize\<close> held, and the two
  other counters are assigned. So \<open>king\<close> never reads a counter that was not assigned.
  The position is taken to be consistent: the non-pawn material of a side is at least
  the value of its queens, and two queens are worth at least a rook and a knight.
\<close>

theorem danger_branch_reads_assigned_counters:
  assumes npm: "count_c pos QUEEN (flip_color Us) * QueenValueMg X
                  \<le> non_pawn_material_c pos (flip_color Us)"
      and vals: "RookValueMg X + KnightValueMg X \<le> 2 * QueenValueMg X"
      and qpos: "0 \<le> QueenValueMg X"
  shows "(\<not> king_safety_used X pos Us \<longrightarrow>
            kingAttackersWeight (initialize X pe pos Us e0) (flip_color Us)
              = kingAttackersWeight e0 (flip_color Us)
            \<and> kingAttacksCount (initialize X pe pos Us e0) (flip_color Us)
              = kingAttacksCount e0 (flip_color Us))
         \<and> (king_safety_used X pos Us \<longrightarrow>
            kingAttackersWeight (initialize X pe pos Us e0) (flip_color Us) = Some 0
            \<and> kingAttacksCount (initialize X pe pos Us e0) (flip_color Us) = Some 0)
         \<and> (\<exists>kac. kingAttackersCount (attack_tables X pe pos mem) (flip_color Us) = Some kac
               \<and> (count_c pos (KING X) Us \<noteq> 0 \<and> king_danger_guard pos Us kac \<longrightarrow>
                    king_safety_used X pos Us
                    \<and> kingAttackersWeight (attack_tables X pe pos mem) (flip_color Us) \<noteq> None
                    \<and> kingAttacksCount (attack_tables X pe pos mem) (flip_color Us) \<noteq> None))
         \<and> king X pe pos (attack_tables X pe pos mem) Us \<noteq> None"
proof -
  let ?e = "attack_tables X pe pos mem"
  let ?Them = "flip_color Us"
  have init: "(\<not> king_safety_used X pos Us \<longrightarrow>
            kingAttackersWeight (initialize X pe pos Us e0) ?Them = kingAttackersWeight e0 ?Them
            \<and> kingAttacksCount (initialize X pe pos Us e0) ?Them = kingAttacksCount e0 ?Them)
         \<and> (king_safety_used X pos Us \<longrightarrow>
            kingAttackersWeight (initialize X pe pos Us e0) ?Them = Some 0
            \<and> kingAttacksCount (initialize X pe pos Us e0) ?Them = Some 0)"
    by (simp add: initialize_kingAttackersWeight initialize_kingAttacksCount)
  have ready: "counters_ready X pos Us ?e" by (rule ready_attack_tables)
  then obtain kac where kac: "kingAttackersCount ?e ?Them = Some kac"
    by (auto simp: counters_ready_def split: if_splits)
  have used: "king_safety_used X pos Us"
    if king: "count_c pos (KING X) Us \<noteq> 0" and guard: "king_danger_guard pos Us kac"
  proof (rule ccontr)
    assume unused: "\<not> king_safety_used X pos Us"
    with ready kac have "kac = 0" by (simp add: counters_ready_def)
    with guard unused have q: "2 \<le> count_c pos QUEEN ?Them"
      by (simp add: king_danger_guard_def king_safety_used_def)
    from unused king have small: "non_pawn_material_c pos ?Them < RookValueMg X + KnightValueMg X"
      by (simp add: king_safety_used_def)
    from q qpos have "2 * QueenValueMg X \<le> count_c pos QUEEN ?Them * QueenValueMg X"
      by (simp add: mult_right_mono)
    with npm vals small show False by linarith
  qed
  have reads: "kingAttackersWeight ?e ?Them \<noteq> None \<and> kingAttacksCount ?e ?Them \<noteq> None"
    if "king_safety_used X pos Us"
    using ready that by (simp add: counters_ready_def)
  have king: "king X pe pos ?e Us \<noteq> None"
  proof (cases "count_c pos (KING X) Us = 0 \<or> \<not> checking_permitted pos")
    case True
    then show ?thesis by (auto simp: king_def)
  next
    case False
    show ?thesis
    proof (cases "king_danger_guard pos Us kac")
      case True
      with False used reads obtain kaw katc where
        "kingAttackersWeight ?e ?Them = Some kaw" "kingAttacksCount ?e ?Them = Some katc"
        by auto
      with kac True False show ?thesis by (simp add: king_def king_main_def Let_def)
    next
      case guard: False
      with kac False show ?thesis by (simp add: king_def king_main_def Let_def)
    qed
  qed
  from init kac used reads king show ?thesis by blast
qed

text \<open>
  In \<open>qk_kppp\<close> the king safety tables of White are not used, Black having no piece, and
  those of Black are used. \<open>king\<close> returns a score for both colours.
\<close>

theorem danger_branch_reads_assigned_counters_witness:
  "\<not> king_safety_used chess_env qk_kppp WHITE
   \<and> king_safety_used chess_env qk_kppp BLACK
   \<and> king chess_env qk_kppp_pe qk_kppp (attack_tables chess_env qk_kppp_pe qk_kppp zero_mem) WHITE
       \<noteq> None
   \<and> king chess_env qk_kppp_pe qk_kppp (attack_tables chess_env qk_kppp_pe qk_kppp zero_mem) BLACK
       \<noteq> None"
proof -
  have used: "\<not> king_safety_used chess_env qk_kppp WHITE" "king_safety_used chess_env qk_kppp BLACK"
    by (simp_all add: king_safety_used_def qk_kppp_def sample_defs s_piece_value_mg_def)
  have npm: "count_c qk_kppp QUEEN (flip_color c) * QueenValueMg chess_env
               \<le> non_pawn_material_c qk_kppp (flip_color c)" for c
    by (cases c) (simp_all add: qk_kppp_def sample_defs s_piece_value_mg_def)
  have vals: "RookValueMg chess_env + KnightValueMg chess_env \<le> 2 * QueenValueMg chess_env"
    by (simp add: chess_env_fields)
  have qpos: "0 \<le> QueenValueMg chess_env"
    by (simp add: chess_env_fields)
  note w = danger_branch_reads_assigned_counters
             [OF npm [of WHITE] vals qpos, of qk_kppp_pe zero_mem zero_mem,
              THEN conjunct2, THEN conjunct2, THEN conjunct2]
  note b = danger_branch_reads_assigned_counters
             [OF npm [of BLACK] vals qpos, of qk_kppp_pe zero_mem zero_mem,
              THEN conjunct2, THEN conjunct2, THEN conjunct2]
  from used w b show ?thesis by (intro conjI)
qed

subsection \<open>Attacks of a piece: x-rays and pins\<close>

lemma word_subset_bits:
  fixes q a :: "'w::len word"
  assumes "q AND NOT a = 0" and "bit q n"
  shows "bit a n"
proof (rule ccontr)
  assume "\<not> bit a n"
  with assms(2) bit_imp_le_length [OF assms(2)] have "bit (q AND NOT a) n"
    by (simp add: bit_and_iff bit_not_iff)
  with assms(1) show False by simp
qed

lemma word_disjoint_bits:
  fixes q r :: "'w::len word"
  assumes "q AND r = 0" and "bit q n"
  shows "\<not> bit r n"
proof
  assume "bit r n"
  with assms(2) have "bit (q AND r) n" by (simp add: bit_and_iff)
  with assms(1) show False by simp
qed

lemma xor_excludes_bishop:
  fixes a q c :: "'w::len word"
  assumes "q AND NOT a = 0"
  shows "(a XOR q) AND (c AND q) = 0"
  using word_subset_bits [OF assms]
  by (auto simp: bit_eq_iff bit_and_iff bit_xor_iff)

lemma xor_excludes_rook:
  fixes a q r c :: "'w::len word"
  assumes "q AND NOT a = 0" and "q AND r = 0"
  shows "(a XOR q XOR (c AND r)) AND (c AND q) = 0"
  using word_subset_bits [OF assms(1)] word_disjoint_bits [OF assms(2)]
  by (auto simp: bit_eq_iff bit_and_iff bit_xor_iff)

lemma and_line_within:
  fixes b l :: "'w::len word"
  shows "(b AND l) AND NOT l = 0"
  by (auto simp: bit_eq_iff bit_and_iff bit_not_iff)

text \<open>
  C5. Let \<open>b\<close> be the set that \<open>pieces\<close> computes first for the piece of type \<open>Pt\<close> on
  \<open>s\<close>, cut to the board: for a bishop or a rook the sliding attack looked up with
  \<open>xray_occupancy\<close>, for any other piece its attacks on occupied squares and its moves
  to empty ones. For a bishop or a rook this occupancy holds no queen of the same colour
  (the position being consistent: every queen is among all pieces and no square holds
  both a queen and a rook), so the piece sees through its own queens. Whatever the type
  of the piece, when it is among the blockers for its own king its attack set is \<open>b\<close> cut
  to \<^verbatim>\<open>LineBB\<close> of the king square and the square of the piece, and so has no square
  outside that line; otherwise it is \<open>b\<close>.
\<close>

theorem xray_and_pinned_attacks:
  assumes among: "pieces_pt pos QUEEN AND NOT (pieces pos) = 0"
      and apart: "pieces_pt pos QUEEN AND pieces_pt pos ROOK = 0"
      and b: "b = (if Pt = BISHOP \<or> Pt = ROOK
                   then attacks_bb_tmpl X Pt s (xray_occupancy pos Us Pt)
                   else (attacks_from X pos Us Pt s AND pieces pos)
                        OR (moves_from X pos Us Pt s AND NOT (pieces pos)))
                  AND board_bb X pos"
  shows "(Pt = BISHOP \<or> Pt = ROOK
            \<longrightarrow> xray_occupancy pos Us Pt AND pieces_c_pt pos Us QUEEN = 0)
         \<and> piece_attacks X pos Us Pt s =
             (if bb_sq X (blockers_for_king pos Us) s \<noteq> 0
              then b AND LineBB X (square_of pos (KING X) Us) s
              else b)
         \<and> (bb_sq X (blockers_for_king pos Us) s \<noteq> 0
              \<longrightarrow> piece_attacks X pos Us Pt s
                    AND NOT (LineBB X (square_of pos (KING X) Us) s) = 0)"
proof -
  have occ: "xray_occupancy pos Us Pt AND pieces_c_pt pos Us QUEEN = 0"
    if "Pt = BISHOP \<or> Pt = ROOK"
  proof (cases "Pt = BISHOP")
    case True
    with among show ?thesis
      by (simp add: xray_occupancy_def pieces_c_pt_def pieces_pt_def xor_excludes_bishop)
  next
    case False
    with among apart show ?thesis
      by (simp add: xray_occupancy_def pieces_c_pt_def pieces_pt_def xor_excludes_rook)
  qed
  have att: "piece_attacks X pos Us Pt s =
             (if bb_sq X (blockers_for_king pos Us) s \<noteq> 0
              then b AND LineBB X (square_of pos (KING X) Us) s
              else b)"
  proof (cases "Pt = BISHOP")
    case True
    then show ?thesis unfolding b by (simp add: piece_attacks_def Let_def)
  next
    case False
    then show ?thesis unfolding b
      by (cases "Pt = ROOK") (simp_all add: piece_attacks_def Let_def)
  qed
  have line: "piece_attacks X pos Us Pt s AND NOT (LineBB X (square_of pos (KING X) Us) s) = 0"
    if "bb_sq X (blockers_for_king pos Us) s \<noteq> 0"
    using that by (simp add: att and_line_within)
  from occ att line show ?thesis by blast
qed

text \<open>
  In \<open>battery\<close> the rook d1 attacks the d-file through its queen on d4 up to d8, and the
  pinned bishop e2 keeps no attack at all, none of its diagonal moves being on the e-file.
  In \<open>pinned_queen\<close> the queen e2 attacks 23 squares before the pin is looked at and
  keeps the seven on the e-file: its king on e1 and e3 up to the rook on e8.
\<close>

lemma rook_not_bishop: "ROOK \<noteq> BISHOP"
  by (simp add: piece_defs)

lemma battery_bitboards:
  "pieces battery = 5764607523168456728"
  "pieces_pt battery QUEEN = 134217728"
  "pieces_pt battery ROOK = 1152921504606846984"
  "pieces_c_pt battery WHITE QUEEN = 134217728"
  "pieces_c_pt battery WHITE ROOK = 8"
  "square_of battery 7 WHITE = 4"
  by (simp_all add: battery_def sample_defs)

lemma battery_board: "board_bb chess_env battery = - 1"
  by (simp add: battery_def sample_defs s_board_size_bb_def upt64)

lemma battery_rook: "s_attacks_bb_tmpl ROOK 3 5764607523034238992 = 578721382704613399"
  by (simp add: attack_defs sq_bit_def piece_defs)

lemma battery_bishop: "s_attacks_bb_tmpl BISHOP 12 5764607523034239000 = 1659000848424"
  by (simp add: attack_defs sq_bit_def piece_defs)

lemma battery_line: "s_line_bb 4 12 = 1157442765409226768"
  by (simp add: s_line_bb_def upt64 bb_of_def sq_bit_def)

lemma pinned_queen_bitboards:
  "pieces pinned_queen = 5764607523034238992"
  "byTypeBB pinned_queen ALL_PIECES = 5764607523034238992"
  "pieces_pt pinned_queen QUEEN = 4096"
  "pieces_pt pinned_queen ROOK = 1152921504606846976"
  "square_of pinned_queen 7 WHITE = 4"
  by (simp_all add: pinned_queen_def sample_defs)

lemma pinned_queen_board: "board_bb chess_env pinned_queen = - 1"
  by (simp add: pinned_queen_def sample_defs s_board_size_bb_def upt64)

lemma pinned_queen_attacks:
  "s_attacks_bb WHITE QUEEN 12 5764607523034238992 = 1157444424410132280"
  "s_moves_bb WHITE QUEEN 12 5764607523034238992 = 1157444424410132280"
  by (simp_all add: attack_defs sq_bit_def piece_defs)

theorem xray_and_pinned_attacks_witness:
  "xray_occupancy battery WHITE ROOK AND pieces_c_pt battery WHITE QUEEN = 0
   \<and> piece_attacks chess_env battery WHITE ROOK 3 = bb_of [0, 1, 2, 4, 11, 19, 27, 35, 43, 51, 59]
   \<and> piece_attacks chess_env battery WHITE BISHOP 12 = 0
   \<and> piece_attacks chess_env pinned_queen WHITE QUEEN 12 = bb_of [4, 20, 28, 36, 44, 52, 60]
   \<and> piece_attacks chess_env pinned_queen WHITE QUEEN 12 AND NOT (s_line_bb 4 12) = 0"
proof -
  have among: "pieces_pt battery QUEEN AND NOT (pieces battery) = 0"
    and apart: "pieces_pt battery QUEEN AND pieces_pt battery ROOK = 0"
    by (simp_all add: battery_bitboards)
  have among': "pieces_pt pinned_queen QUEEN AND NOT (pieces pinned_queen) = 0"
    and apart': "pieces_pt pinned_queen QUEEN AND pieces_pt pinned_queen ROOK = 0"
    by (simp_all add: pinned_queen_bitboards)
  have occ: "xray_occupancy battery WHITE ROOK = 5764607523034238992"
    "xray_occupancy battery WHITE BISHOP = 5764607523034239000"
    by (simp_all add: xray_occupancy_def battery_bitboards rook_not_bishop)
  have blk: "bb_sq chess_env (blockers_for_king battery WHITE) 3 = 0"
    "bb_sq chess_env (blockers_for_king battery WHITE) 12 \<noteq> 0"
    "bb_sq chess_env (blockers_for_king pinned_queen WHITE) 12 \<noteq> 0"
    by (simp_all add: bb_sq_def battery_def pinned_queen_def sample_defs)
  have sq: "bb_of [0, 1, 2, 4, 11, 19, 27, 35, 43, 51, 59] = (578721382704613399 :: 64 word)"
    "bb_of [4, 20, 28, 36, 44, 52, 60] = (1157442765409222672 :: 64 word)"
    by (simp_all add: bb_of_def sq_bit_def)
  have sliders: "ROOK = BISHOP \<or> ROOK = ROOK" "BISHOP = BISHOP \<or> BISHOP = ROOK"
    "\<not> (QUEEN = BISHOP \<or> QUEEN = ROOK)"
    by (simp_all add: piece_defs)
  note r = xray_and_pinned_attacks
             [where Pt = ROOK and X = chess_env and s = 3 and Us = WHITE, OF among apart refl]
  note bi = xray_and_pinned_attacks
              [where Pt = BISHOP and X = chess_env and s = 12 and Us = WHITE, OF among apart refl]
  note q = xray_and_pinned_attacks
             [where Pt = QUEEN and X = chess_env and s = 12 and Us = WHITE, OF among' apart' refl]
  have 1: "xray_occupancy battery WHITE ROOK AND pieces_c_pt battery WHITE QUEEN = 0"
    using r [THEN conjunct1] by (simp add: sliders)
  have 2: "piece_attacks chess_env battery WHITE ROOK 3
           = bb_of [0, 1, 2, 4, 11, 19, 27, 35, 43, 51, 59]"
    using r [THEN conjunct2, THEN conjunct1]
    by (simp add: sliders occ blk sq battery_board battery_rook chess_env_fields)
  have 3: "piece_attacks chess_env battery WHITE BISHOP 12 = 0"
    using bi [THEN conjunct2, THEN conjunct1]
    by (simp add: sliders occ blk battery_board battery_bishop battery_line
        battery_bitboards chess_env_fields)
  have 4: "piece_attacks chess_env pinned_queen WHITE QUEEN 12
           = bb_of [4, 20, 28, 36, 44, 52, 60]"
    using q [THEN conjunct2, THEN conjunct1]
    by (simp add: sliders blk sq pinned_queen_board pinned_queen_attacks battery_line
        pinned_queen_bitboards chess_env_fields attacks_from_def moves_from_def)
  have 5: "piece_attacks chess_env pinned_queen WHITE QUEEN 12 AND NOT (s_line_bb 4 12) = 0"
    using q [THEN conjunct2, THEN conjunct2]
    by (simp add: blk pinned_queen_bitboards chess_env_fields)
  from 1 2 3 4 5 show ?thesis by (intro conjI)
qed

subsection \<open>Passed pawns\<close>

lemma or_and_nonzero:
  fixes a b f :: "'w::len word"
  shows "(a OR b) AND f \<noteq> 0 \<longleftrightarrow> a AND f \<noteq> 0 \<or> b AND f \<noteq> 0"
  by (auto simp: bit_eq_iff bit_and_iff bit_or_iff)

text \<open>
  C6, as amended. The bonus of a passed pawn is halved, each component as a C++ int,
  exactly when the pawn would not be passed after one push, or a pawn of either colour,
  friendly or not, stands on the file in front of it; otherwise it is left as it is.
  (Every pawn of the position has one of the two colours.)
\<close>

theorem passed_bonus_halving:
  assumes colours: "pieces_pt pos PAWN = pieces_c_pt pos Us PAWN OR pieces_c_pt pos (flip_color Us) PAWN"
  shows "passed_bonus_scaled X pos e Us s =
           (if \<not> pawn_passed X pos Us (s + pawn_push X Us)
               \<or> pieces_c_pt pos Us PAWN AND forward_file_bb X Us s \<noteq> 0
               \<or> pieces_c_pt pos (flip_color Us) PAWN AND forward_file_bb X Us s \<noteq> 0
            then Score (cdiv (mg_value (passed_bonus X pos e Us s)) 2)
                       (cdiv (eg_value (passed_bonus X pos e Us s)) 2)
            else passed_bonus X pos e Us s)"
  unfolding passed_bonus_scaled_def Let_def colours or_and_nonzero pawn_push_def
  by (simp add: sc_div_def make_score_def)

lemma blocked_passer_bitboards:
  "pieces_pt blocked_passer PAWN = 17661039738880"
  "pieces_c_pt blocked_passer WHITE PAWN = 68853694464"
  "pieces_c_pt blocked_passer BLACK PAWN = 17592186044416"
  "pieces_c blocked_passer WHITE = 68853694480"
  "square_of blocked_passer 7 WHITE = 4" "square_of blocked_passer 7 BLACK = 60"
  "count_c blocked_passer 7 WHITE = 1" "count_c blocked_passer 7 BLACK = 1"
  "max_rank blocked_passer = 7"
  "extinction_value chess_env blocked_passer = 32002"
  "\<not> empty_sq blocked_passer 44"
  by (simp_all add: blocked_passer_def sample_defs s_convert_mate_value_def)

lemma blocked_passer_masks:
  "s_forward_file_bb WHITE 36 = 1157442696420261888"
  "s_passed_pawn_mask WHITE 44 = 4050987864819761152"
  by (simp_all add: s_forward_file_bb_def s_passed_pawn_mask_def
      s_forward_ranks_bb_def s_file_bb_def mask_eq_exp_minus_1)

lemma blocked_passer_bonus:
  "passed_bonus chess_env blocked_passer e WHITE 36 = Score 74 28"
  by (simp add: passed_bonus_def Let_def king_proximity_def blocked_passer_bitboards
      chess_env_fields s_relative_rank_def s_distance_def tab_at_def PassedDanger_def
      PassedRank_def RANK_7_def sc_add_def sc_sub_def make_score_def bb_sq_def sq_bit_def)

theorem passed_bonus_halving_witness:
  "passed_bonus_scaled chess_env blocked_passer
     (attack_tables chess_env blocked_passer_pe blocked_passer zero_mem) WHITE 36
   = Score 37 14"
proof -
  have colours: "pieces_pt blocked_passer PAWN
                   = pieces_c_pt blocked_passer WHITE PAWN
                     OR pieces_c_pt blocked_passer (flip_color WHITE) PAWN"
    by (simp add: blocked_passer_bitboards)
  from passed_bonus_halving [OF colours, of chess_env
         "attack_tables chess_env blocked_passer_pe blocked_passer zero_mem" 36]
  show ?thesis
    by (simp add: blocked_passer_bonus blocked_passer_bitboards blocked_passer_masks cdiv_def
        chess_env_fields)
qed

text \<open>
  The claim as stated halves the bonus only when the pawn would not be passed after one
  push or a friendly pawn is in front of it. The white pawn e5 is among the passed pawns
  of the pawn entry, it would be passed on e6, no white pawn is in front of it, and the
  pawn in front of it is the black pawn e6: its bonus of 74 and 28 is halved to 37 and 14.
\<close>

theorem passed_bonus_enemy_pawn_counterexample:
  "bb_sq chess_env (passed_pawns blocked_passer_pe WHITE) 36 \<noteq> 0
   \<and> pawn_passed chess_env blocked_passer WHITE (36 + pawn_push chess_env WHITE)
   \<and> pieces_c_pt blocked_passer WHITE PAWN AND forward_file_bb chess_env WHITE 36 = 0
   \<and> passed_bonus chess_env blocked_passer
        (attack_tables chess_env blocked_passer_pe blocked_passer zero_mem) WHITE 36
      = Score 74 28
   \<and> passed_bonus_scaled chess_env blocked_passer
        (attack_tables chess_env blocked_passer_pe blocked_passer zero_mem) WHITE 36
      = Score 37 14"
proof -
  have a: "bb_sq chess_env (passed_pawns blocked_passer_pe WHITE) 36 \<noteq> 0"
    by (simp add: bb_sq_def blocked_passer_pe_def chess_env_fields bb_of_def sq_bit_def)
  have b: "pawn_passed chess_env blocked_passer WHITE (36 + pawn_push chess_env WHITE)"
    by (simp add: pawn_passed_def pawn_push_def chess_env_fields blocked_passer_bitboards
        blocked_passer_masks)
  have c: "pieces_c_pt blocked_passer WHITE PAWN AND forward_file_bb chess_env WHITE 36 = 0"
    by (simp add: blocked_passer_bitboards blocked_passer_masks chess_env_fields)
  have d: "passed_bonus_scaled chess_env blocked_passer
        (attack_tables chess_env blocked_passer_pe blocked_passer zero_mem) WHITE 36
      = Score 37 14"
    by (simp add: passed_bonus_scaled_def Let_def blocked_passer_bonus blocked_passer_bitboards
        blocked_passer_masks sc_div_def make_score_def cdiv_def chess_env_fields)
  from a b c d blocked_passer_bonus show ?thesis by simp
qed

subsection \<open>The attack tables of the sample position \<open>qk_kppp\<close>\<close>

lemma s_popcount_zero: "s_popcount 0 = 0"
  by (simp add: s_popcount_def)

lemma qk_squares:
  "squares chess_env qk_kppp WHITE QUEEN = [5]"
  "pt \<noteq> QUEEN \<Longrightarrow> pt \<noteq> 7 \<Longrightarrow> squares chess_env qk_kppp WHITE pt = []"
  "pt \<noteq> PAWN \<Longrightarrow> pt \<noteq> 7 \<Longrightarrow> squares chess_env qk_kppp BLACK pt = []"
  by (simp_all add: squares_def qk_kppp_def sample_defs upt64)

lemma qk_tables:
  "attack_tables chess_env qk_kppp_pe qk_kppp zero_mem =
     (let e = initialize chess_env qk_kppp_pe qk_kppp BLACK
                (initialize chess_env qk_kppp_pe qk_kppp WHITE (new_evaluation zero_mem));
          e = e\<lparr> attackedBy := set2 (attackedBy e) WHITE 2 0 \<rparr>;
          e = e\<lparr> attackedBy := set2 (attackedBy e) BLACK 2 0 \<rparr>;
          e = e\<lparr> attackedBy := set2 (attackedBy e) WHITE 3 0 \<rparr>;
          e = e\<lparr> attackedBy := set2 (attackedBy e) BLACK 3 0 \<rparr>;
          e = e\<lparr> attackedBy := set2 (attackedBy e) WHITE 4 0 \<rparr>;
          e = e\<lparr> attackedBy := set2 (attackedBy e) BLACK 4 0 \<rparr>;
          e = pieces_step chess_env qk_kppp WHITE 5 5
                (e\<lparr> attackedBy := set2 (attackedBy e) WHITE 5 0 \<rparr>);
          e = e\<lparr> attackedBy := set2 (attackedBy e) BLACK 5 0 \<rparr>;
          e = e\<lparr> attackedBy := set2 (attackedBy e) WHITE 6 0 \<rparr>
      in e\<lparr> attackedBy := set2 (attackedBy e) BLACK 6 0 \<rparr>)"
proof -
  have pd: "\<not> piece_drops qk_kppp" by (simp add: qk_kppp_def sample_defs)
  have w: "eval_pieces chess_env qk_kppp WHITE pt e
             = e\<lparr> attackedBy := set2 (attackedBy e) WHITE pt 0 \<rparr>"
    if "pt \<noteq> QUEEN" "pt \<noteq> 7" for pt e
    using that by (simp add: eval_pieces_none qk_squares)
  have b: "eval_pieces chess_env qk_kppp BLACK pt e
             = e\<lparr> attackedBy := set2 (attackedBy e) BLACK pt 0 \<rparr>"
    if "pt \<noteq> PAWN" "pt \<noteq> 7" for pt e
    using that by (simp add: eval_pieces_none qk_squares)
  have q: "eval_pieces chess_env qk_kppp WHITE 5 e =
      pieces_step chess_env qk_kppp WHITE 5 5 (e\<lparr> attackedBy := set2 (attackedBy e) WHITE 5 0 \<rparr>)"
    for e
    using qk_squares(1) by (simp add: eval_pieces_one QUEEN_def)
  show ?thesis
    unfolding attack_tables_def Let_def chess_piece_types
    by (simp add: pd w b q piece_defs)
qed

lemma qk_position:
  "pieces qk_kppp = 9277450416755310688"
  "byTypeBB qk_kppp ALL_PIECES = 9277450416755310688"
  "pieces_c qk_kppp WHITE = 96"
  "pieces_c qk_kppp BLACK = 9277450416755310592"
  "pieces_pt qk_kppp PAWN = 54078379900534784"
  "pieces_c_pt qk_kppp BLACK QUEEN = 0"
  "pieces_c_pt2 qk_kppp WHITE 7 QUEEN = 96"
  "pieces_c_pt2 qk_kppp BLACK 7 QUEEN = 9223372036854775808"
  "pieces_c_pt qk_kppp c 6 = 0"
  "count_c qk_kppp 7 c = 1"
  "count_c qk_kppp QUEEN WHITE = 1" "count_c qk_kppp QUEEN BLACK = 0"
  "square_of qk_kppp 7 WHITE = 6" "square_of qk_kppp 7 BLACK = 63"
  "blockers_for_king qk_kppp c = 0"
  "max_rank qk_kppp = 7" "max_file qk_kppp = 7"
  "\<not> must_capture qk_kppp" "\<not> captures_to_hand qk_kppp" "checking_permitted qk_kppp"
  "max_check_count qk_kppp = 0"
  "piece_types qk_kppp = [1, 2, 3, 4, 5, 7]"
  "count_in_hand qk_kppp c pt = 0"
  by (simp_all add: qk_kppp_def sample_defs, (cases c; simp)+)

lemmas qk_position_num = qk_position [unfolded piece_defs]

lemma qk_board: "board_bb chess_env qk_kppp = - 1"
  by (simp add: qk_kppp_def sample_defs s_board_size_bb_def upt64)

lemma qk_pe:
  "pawn_attacks qk_kppp_pe WHITE = 0" "pawn_attacks qk_kppp_pe BLACK = 246634202005504"
  "king_safety qk_kppp_pe BLACK s = Score 48 (- 16)"
  by (simp_all add: qk_kppp_pe_def bb_of_def sq_bit_def)

lemma qk_used:
  "\<not> king_safety_used chess_env qk_kppp WHITE" "king_safety_used chess_env qk_kppp BLACK"
  by (simp_all add: king_safety_used_def qk_kppp_def sample_defs s_piece_value_mg_def)

lemma fresh_fields:
  "mobilityArea (new_evaluation zero_mem) c = 0"
  "mobility (new_evaluation zero_mem) c = SCORE_ZERO"
  "attackedBy (new_evaluation zero_mem) c pt = 0"
  "attackedBy2 (new_evaluation zero_mem) c = 0"
  "kingRing (new_evaluation zero_mem) c = 0"
  "kingAttackersCount (new_evaluation zero_mem) c = None"
  "kingAttackersWeight (new_evaluation zero_mem) c = None"
  "kingAttacksCount (new_evaluation zero_mem) c = None"
  by (simp_all add: new_evaluation_def zero_mem_def)

lemma qk_attacks:
  "s_attacks_bb WHITE 7 6 9277450416755310688 = 57504"
  "s_attacks_bb BLACK 7 63 9277450416755310688 = 4665729213955833856"
  "s_attacks_bb WHITE 5 5 9277450416755310688 = 36430527623263"
  "s_moves_bb WHITE 5 5 9277450416755310688 = 36430527623263"
  "s_attacks_bb BLACK 5 63 9277450416755310688 = 9205357638345293824"
  by (simp_all add: attack_defs sq_bit_def piece_defs)

lemma qk_king_attacks:
  "king_attacks chess_env qk_kppp WHITE = 57504"
  "king_attacks chess_env qk_kppp BLACK = 4665729213955833856"
  by (simp_all add: king_attacks_def attacks_from_def qk_position chess_env_fields qk_attacks)

lemma qk_queen_attacks: "piece_attacks chess_env qk_kppp WHITE 5 5 = 36430527623263"
  by (simp add: piece_attacks_def Let_def attacks_from_def moves_from_def bb_sq_def
      qk_position_num qk_board chess_env_fields qk_attacks piece_defs)

lemma qk_king_ring: "king_ring chess_env qk_kppp BLACK = 6980825713028890624"
  by (simp add: king_ring_def Let_def qk_king_attacks qk_position qk_board chess_env_fields
      s_relative_rank_def s_shift_def s_file_bb_def RANK_1_def FILE_A_def WEST_def EAST_def)

lemma qk_low_pawns:
  "low_or_blocked_pawns chess_env qk_kppp WHITE = 0"
  "low_or_blocked_pawns chess_env qk_kppp BLACK = 54078379900534784"
  by (simp_all add: low_or_blocked_pawns_def Let_def qk_kppp_def sample_defs s_shift_def
      RANK_2_def RANK_3_def)

lemma qk_mobility_area:
  "mobilityArea (attack_tables chess_env qk_kppp_pe qk_kppp zero_mem) WHITE
     = 18446497439507546015"
  "mobilityArea (attack_tables chess_env qk_kppp_pe qk_kppp zero_mem) BLACK
     = 9169293656954241023"
  by (simp_all add: qk_tables Let_def member_simps chess_king_last qk_low_pawns qk_position
      qk_pe chess_env_fields s_shift_def)

lemma qk_king_rings:
  "kingRing (attack_tables chess_env qk_kppp_pe qk_kppp zero_mem) WHITE = 0"
  "kingRing (attack_tables chess_env qk_kppp_pe qk_kppp zero_mem) BLACK = 6980825713028890624"
  by (simp_all add: qk_tables Let_def member_simps chess_king_last qk_used qk_king_ring)

lemma qk_attacked_by:
  "attackedBy (attack_tables chess_env qk_kppp_pe qk_kppp zero_mem) WHITE pt =
     (if pt = 0 then 36430527656191 else if pt = 5 then 36430527623263
      else if pt = 7 then 57504 else 0)"
  "attackedBy (attack_tables chess_env qk_kppp_pe qk_kppp zero_mem) BLACK pt =
     (if pt = 0 then 4665975848157839360 else if pt = 1 then 246634202005504
      else if pt = 7 then 4665729213955833856 else 0)"
  by (simp_all add: qk_tables Let_def member_simps chess_king_last qk_king_attacks qk_pe
      qk_queen_attacks chess_env_fields piece_defs fresh_fields)

lemma qk_attacked_by2:
  "attackedBy2 (attack_tables chess_env qk_kppp_pe qk_kppp zero_mem) WHITE = 24576"
  "attackedBy2 (attack_tables chess_env qk_kppp_pe qk_kppp zero_mem) BLACK = 0"
  by (simp_all add: qk_tables Let_def member_simps chess_king_last qk_king_attacks qk_pe
      qk_queen_attacks chess_env_fields piece_defs fresh_fields)

lemma qk_counters:
  "kingAttackersCount (attack_tables chess_env qk_kppp_pe qk_kppp zero_mem) WHITE = Some 1"
  "kingAttackersWeight (attack_tables chess_env qk_kppp_pe qk_kppp zero_mem) WHITE = Some 10"
  "kingAttacksCount (attack_tables chess_env qk_kppp_pe qk_kppp zero_mem) WHITE = Some 0"
  by (simp_all add: qk_tables Let_def member_simps chess_king_last qk_used qk_king_ring qk_pe
      qk_queen_attacks qk_king_attacks chess_env_fields s_popcount_zero KingAttackWeights_def
      tab_at_def piece_defs fresh_fields)

lemma qk_queen_mobility: "s_popcount 1246155534367 = 16"
  by (simp add: s_popcount_def upt64)

lemma qk_mobility:
  "mobility (attack_tables chess_env qk_kppp_pe qk_kppp zero_mem) WHITE = Score 71 133"
  "mobility (attack_tables chess_env qk_kppp_pe qk_kppp zero_mem) BLACK = SCORE_ZERO"
  by (simp_all add: qk_tables Let_def member_simps chess_king_last qk_low_pawns
      qk_position_num
      qk_pe qk_queen_attacks chess_env_fields s_shift_def qk_queen_mobility
      fresh_fields MobilityBonus_def tab_at_def piece_defs sc_add_def
      SCORE_ZERO_def)

lemma qk_danger_units:
  "king_danger_units chess_env qk_kppp (attack_tables chess_env qk_kppp_pe qk_kppp zero_mem)
     BLACK 63 score 1 10 0
   = to_int (50 - cdiv (9 * mg_value score) 8)"
  by (simp add: king_danger_units_def king_check_step_def get_attacks_def Let_def
      qk_attacked_by qk_attacked_by2 qk_king_rings qk_mobility_area qk_position_num qk_board
      chess_env_fields qk_attacks piece_defs s_popcount_zero cdiv_def
      QueenSafeCheck_def RookSafeCheck_def BishopSafeCheck_def KnightSafeCheck_def
      OtherSafeCheck_def)

subsection \<open>The king danger penalty\<close>

text \<open>
  The square of 46340 is the last that fits into an \<^verbatim>\<open>int\<close>. At 46341 the low 32 bits
  of the square stand for a negative number, and the minimum taken with 3000 is its
  quotient.
\<close>

lemma king_danger_square_wraps:
  "to_int (46340 * 46340) = 2147395600"
  "to_int (46341 * 46341) = - 2147479015"
  "min (cdiv (to_int (46341 * 46341)) 4096) 3000 = - 524286"
  by (simp_all add: to_int_def cdiv_def)

lemma king_danger_score_eq:
  assumes "kd' = max 0 (to_int (kd + mg_value (sc_sub (mobility e (flip_color Us))
                                                   (mobility e Us))))"
      and "0 < kd \<longrightarrow> kd' \<le> 46340"
  shows "king_danger_score e Us kd score =
           (if kd > 0
            then Score (mg_value score - min (kd' * kd' div 4096) 3000)
                       (eg_value score - kd' div 16)
            else score)"
proof (cases "kd > 0")
  case True
  from assms(1) have nn: "0 \<le> kd'" by simp
  from assms(2) True have le: "kd' \<le> 46340" by simp
  have sq: "0 \<le> kd' * kd'" by simp
  have eq: "king_danger_score e Us kd score =
              sc_sub score (make_score (min (cdiv (to_int (kd' * kd')) 4096) 3000) (cdiv kd' 16))"
    using True unfolding assms(1) by (simp add: king_danger_score_def Let_def)
  have mg: "cdiv (to_int (kd' * kd')) 4096 = kd' * kd' div 4096"
    using cdiv_nonneg [OF sq, of 4096] by (simp add: to_int_square [OF nn le])
  have eg: "cdiv kd' 16 = kd' div 16"
    using cdiv_nonneg [OF nn, of 16] by simp
  from True show ?thesis by (simp add: eq mg eg sc_sub_def make_score_def)
next
  case False
  then show ?thesis by (simp add: king_danger_score_def)
qed

text \<open>
  C2, as amended. Let \<open>kd\<close> be the accumulated \<^verbatim>\<open>kingDanger\<close> when the danger branch of
  \<open>king\<close> runs. When \<open>kd\<close> is positive, the middlegame value of
  \<^verbatim>\<open>mobility[Them] - mobility[Us]\<close> is added to it as an \<^verbatim>\<open>int\<close> and the sum is clamped below
  at 0, which gives \<open>kd'\<close>; as long as \<open>kd'\<close> is at most 46340, so that its square fits
  into an \<^verbatim>\<open>int\<close>, the score is reduced by exactly \<open>min(kd'\<^sup>2 / 4096, 3000)\<close> in the
  middlegame component and \<open>kd' / 16\<close> in the endgame component. When \<open>kd\<close> is not positive,
  the mobility is not looked at and the score is left as it is.
\<close>

theorem king_danger_penalty:
  assumes "kingAttackersCount e (flip_color Us) = Some kac"
      and "kingAttackersWeight e (flip_color Us) = Some kaw"
      and "kingAttacksCount e (flip_color Us) = Some katc"
      and "king_danger_guard pos Us kac"
      and "kd = king_danger_units X pos e Us ksq score kac kaw katc"
      and "kd' = max 0 (to_int (kd + mg_value (sc_sub (mobility e (flip_color Us))
                                                   (mobility e Us))))"
      and "0 < kd \<longrightarrow> kd' \<le> 46340"
  shows "king_main X pos e Us ksq score =
           Some (if kd > 0
                 then Score (mg_value score - min (kd' * kd' div 4096) 3000)
                            (eg_value score - kd' div 16)
                 else score)"
  using assms(1-5) king_danger_score_eq [OF assms(6,7)] by (simp add: king_main_def)

text \<open>
  In \<open>qk_kppp\<close> the white queen is the one attacker of the ring of the black king, and
  \<^verbatim>\<open>kingDanger\<close> is \<open>50 - 9 * mg / 8\<close> for the shelter score \<open>mg\<close>. With a shelter score of 0
  it is 50; the mobility of the queen adds 71, and the penalty is 3 and 7.
\<close>

theorem king_danger_penalty_witness:
  "king_danger_guard qk_kppp BLACK 1
   \<and> king_danger_units chess_env qk_kppp (attack_tables chess_env qk_kppp_pe qk_kppp zero_mem)
        BLACK 63 (Score 0 0) 1 10 0 = 50
   \<and> max 0 (to_int (50 + 71)) = 121
   \<and> king_main chess_env qk_kppp (attack_tables chess_env qk_kppp_pe qk_kppp zero_mem) BLACK 63
        (Score 0 0)
      = Some (Score (- 3) (- 7))"
proof -
  have g: "king_danger_guard qk_kppp BLACK 1"
    by (simp add: king_danger_guard_def qk_position)
  have u: "king_danger_units chess_env qk_kppp
             (attack_tables chess_env qk_kppp_pe qk_kppp zero_mem) BLACK 63 (Score 0 0) 1 10 0
           = 50"
    by (simp add: qk_danger_units cdiv_def to_int_id)
  have s: "max 0 (to_int (50 + 71)) = 121"
    by (simp add: to_int_id)
  from king_danger_penalty [of "attack_tables chess_env qk_kppp_pe qk_kppp zero_mem" BLACK
         1 10 0 qk_kppp 50 chess_env 63 "Score 0 0" 121] g
  have "king_main chess_env qk_kppp (attack_tables chess_env qk_kppp_pe qk_kppp zero_mem) BLACK 63
          (Score 0 0)
        = Some (Score (- 3) (- 7))"
    by (simp add: qk_counters u qk_mobility sc_sub_def SCORE_ZERO_def to_int_id)
  with g u s show ?thesis by (intro conjI)
qed

text \<open>
  The claim as stated adds the mobility difference first and tests the result. With the
  shelter score of 48 and \<open>- 16\<close> the accumulated \<^verbatim>\<open>kingDanger\<close> is \<open>- 4\<close> and the mobility
  difference is 71: the sum 67 is positive, and the claim has the score reduced by 1 and
  4. The code tests \<^verbatim>\<open>kingDanger > 0\<close> before it adds the mobility and leaves the score as
  it is.
\<close>

theorem king_danger_mobility_first_counterexample:
  "king_danger_guard qk_kppp BLACK 1
   \<and> king_danger_units chess_env qk_kppp (attack_tables chess_env qk_kppp_pe qk_kppp zero_mem)
        BLACK 63 (Score 48 (- 16)) 1 10 0 = - 4
   \<and> mg_value (sc_sub (mobility (attack_tables chess_env qk_kppp_pe qk_kppp zero_mem) WHITE)
                       (mobility (attack_tables chess_env qk_kppp_pe qk_kppp zero_mem) BLACK))
      = 71
   \<and> king_main chess_env qk_kppp (attack_tables chess_env qk_kppp_pe qk_kppp zero_mem) BLACK 63
        (Score 48 (- 16))
      = Some (Score 48 (- 16))
   \<and> Score (48 - min (max 0 (- 4 + 71) * max 0 (- 4 + 71) div 4096) 3000)
            (- 16 - max 0 (- 4 + 71) div 16)
      = Score 47 (- 20)"
proof -
  have g: "king_danger_guard qk_kppp BLACK 1"
    by (simp add: king_danger_guard_def qk_position)
  have u: "king_danger_units chess_env qk_kppp
             (attack_tables chess_env qk_kppp_pe qk_kppp zero_mem) BLACK 63 (Score 48 (- 16)) 1 10 0
           = - 4"
    by (simp add: qk_danger_units cdiv_def to_int_id)
  have m: "mg_value (sc_sub (mobility (attack_tables chess_env qk_kppp_pe qk_kppp zero_mem) WHITE)
                       (mobility (attack_tables chess_env qk_kppp_pe qk_kppp zero_mem) BLACK))
           = 71"
    by (simp add: qk_mobility sc_sub_def SCORE_ZERO_def)
  have k: "king_main chess_env qk_kppp (attack_tables chess_env qk_kppp_pe qk_kppp zero_mem)
             BLACK 63 (Score 48 (- 16))
           = Some (Score 48 (- 16))"
    using g by (simp add: king_main_def qk_counters u king_danger_score_def)
  from g u m k show ?thesis by simp
qed

subsection \<open>The attack tables of the sample position \<open>kpk_drop\<close>\<close>

lemma kd_position:
  "pieces (kpk_drop sdp) = 1152921504606851088"
  "byTypeBB (kpk_drop sdp) ALL_PIECES = 1152921504606851088"
  "pieces_c (kpk_drop sdp) WHITE = 4112"
  "pieces_c (kpk_drop sdp) BLACK = 1152921504606846976"
  "pieces_pt (kpk_drop sdp) PAWN = 4096"
  "pieces_c_pt (kpk_drop sdp) WHITE QUEEN = 0"
  "pieces_c_pt2 (kpk_drop sdp) WHITE 7 QUEEN = 16"
  "pieces_c_pt2 (kpk_drop sdp) BLACK 7 QUEEN = 1152921504606846976"
  "pieces_c_pt (kpk_drop sdp) c 6 = 0"
  "count_c (kpk_drop sdp) 7 c = 1"
  "count_c (kpk_drop sdp) QUEEN c = 0"
  "square_of (kpk_drop sdp) 7 WHITE = 4" "square_of (kpk_drop sdp) 7 BLACK = 60"
  "blockers_for_king (kpk_drop sdp) c = 0"
  "max_rank (kpk_drop sdp) = 7" "max_file (kpk_drop sdp) = 7"
  "\<not> must_capture (kpk_drop sdp)" "captures_to_hand (kpk_drop sdp)"
  "piece_drops (kpk_drop sdp)" "checking_permitted (kpk_drop sdp)"
  "shogi_doubled_pawn (kpk_drop sdp) = sdp"
  "max_check_count (kpk_drop sdp) = 0"
  "piece_types (kpk_drop sdp) = [1, 2, 3, 4, 5, 7]"
  "count_in_hand (kpk_drop sdp) c pt = 0"
  by (simp_all add: kpk_drop_def kpk_pieces_def sample_defs, (cases c; simp)+)

lemmas kd_position_num = kd_position [unfolded piece_defs] kd_position [unfolded piece_defs One_nat_def]

lemma kd_squares:
  "pt \<noteq> PAWN \<Longrightarrow> pt \<noteq> 7 \<Longrightarrow> squares chess_env (kpk_drop sdp) c pt = []"
  by (cases c) (simp_all add: squares_def kpk_drop_def kpk_pieces_def sample_defs upt64)

lemma kd_tables:
  "attack_tables chess_env kpk_pe (kpk_drop sdp) zero_mem =
     (let e = initialize chess_env kpk_pe (kpk_drop sdp) BLACK
                (initialize chess_env kpk_pe (kpk_drop sdp) WHITE (new_evaluation zero_mem));
          e = e\<lparr> attackedBy := set2 (attackedBy e) WHITE 2 0 \<rparr>;
          e = e\<lparr> attackedBy := set2 (attackedBy e) BLACK 2 0 \<rparr>;
          e = e\<lparr> attackedBy := set2 (attackedBy e) WHITE 3 0 \<rparr>;
          e = e\<lparr> attackedBy := set2 (attackedBy e) BLACK 3 0 \<rparr>;
          e = e\<lparr> attackedBy := set2 (attackedBy e) WHITE 4 0 \<rparr>;
          e = e\<lparr> attackedBy := set2 (attackedBy e) BLACK 4 0 \<rparr>;
          e = e\<lparr> attackedBy := set2 (attackedBy e) WHITE 5 0 \<rparr>;
          e = e\<lparr> attackedBy := set2 (attackedBy e) BLACK 5 0 \<rparr>;
          e = e\<lparr> attackedBy := set2 (attackedBy e) WHITE 6 0 \<rparr>
      in e\<lparr> attackedBy := set2 (attackedBy e) BLACK 6 0 \<rparr>)"
proof -
  have p: "eval_pieces chess_env (kpk_drop sdp) c pt e
             = e\<lparr> attackedBy := set2 (attackedBy e) c pt 0 \<rparr>"
    if "pt \<noteq> PAWN" "pt \<noteq> 7" for pt c e
    using that by (simp add: eval_pieces_none kd_squares)
  have h: "hand chess_env (kpk_drop sdp) c pt e = e" for c pt e
    by (simp add: hand_empty kd_position)
  show ?thesis
    unfolding attack_tables_def Let_def chess_piece_types
    by (simp add: p h piece_defs)
qed

lemma kd_board: "board_bb chess_env (kpk_drop sdp) = - 1"
  by (simp add: kpk_drop_def sample_defs s_board_size_bb_def upt64)

lemma kd_pe:
  "pawn_attacks kpk_pe WHITE = 2621440" "pawn_attacks kpk_pe BLACK = 0"
  "king_safety kpk_pe WHITE s = Score 30 (- 16)"
  by (simp_all add: kpk_pe_def bb_of_def sq_bit_def)

lemma kd_used: "king_safety_used chess_env (kpk_drop sdp) c"
  by (simp add: king_safety_used_def kd_position)

lemma kd_attacks:
  "s_attacks_bb WHITE 7 4 1152921504606851088 = 14376"
  "s_attacks_bb BLACK 7 60 1152921504606851088 = 2898066360212914176"
  by (simp_all add: attack_defs sq_bit_def piece_defs)

lemma kd_king_attacks:
  "king_attacks chess_env (kpk_drop sdp) WHITE = 14376"
  "king_attacks chess_env (kpk_drop sdp) BLACK = 2898066360212914176"
  by (simp_all add: king_attacks_def attacks_from_def kd_position chess_env_fields kd_attacks)

lemma kd_king_ring:
  "king_ring chess_env (kpk_drop sdp) WHITE = 3684392"
  "king_ring chess_env (kpk_drop sdp) BLACK = 2898127932864069632"
  by (simp_all add: king_ring_def Let_def kd_king_attacks kd_position kd_board chess_env_fields
      s_relative_rank_def s_shift_def s_file_bb_def RANK_1_def FILE_A_def WEST_def EAST_def)

lemma kd_low_pawns:
  "low_or_blocked_pawns chess_env (kpk_drop sdp) WHITE = 4096"
  "low_or_blocked_pawns chess_env (kpk_drop sdp) BLACK = 0"
  by (simp_all add: low_or_blocked_pawns_def Let_def kpk_drop_def kpk_pieces_def sample_defs
      s_shift_def RANK_2_def RANK_3_def)

lemma kd_mobility_area:
  "mobilityArea (attack_tables chess_env kpk_pe (kpk_drop sdp) zero_mem) WHITE
     = 18446744073709547503"
  "mobilityArea (attack_tables chess_env kpk_pe (kpk_drop sdp) zero_mem) BLACK
     = 17293822569100083199"
  by (simp_all add: kd_tables Let_def member_simps chess_king_last kd_low_pawns kd_position
      kd_pe chess_env_fields s_shift_def)

lemma kd_king_rings:
  "kingRing (attack_tables chess_env kpk_pe (kpk_drop sdp) zero_mem) WHITE = 3684392"
  "kingRing (attack_tables chess_env kpk_pe (kpk_drop sdp) zero_mem) BLACK = 2898127932864069632"
  by (simp_all add: kd_tables Let_def member_simps chess_king_last kd_used kd_king_ring)

lemma kd_attacked_by:
  "attackedBy (attack_tables chess_env kpk_pe (kpk_drop sdp) zero_mem) WHITE pt =
     (if pt = 0 then 2635816 else if pt = 1 then 2621440 else if pt = 7 then 14376 else 0)"
  "attackedBy (attack_tables chess_env kpk_pe (kpk_drop sdp) zero_mem) BLACK pt =
     (if pt = 0 \<or> pt = 7 then 2898066360212914176 else 0)"
  by (simp_all add: kd_tables Let_def member_simps chess_king_last kd_king_attacks kd_pe
      chess_env_fields piece_defs fresh_fields)

lemma kd_attacked_by2:
  "attackedBy2 (attack_tables chess_env kpk_pe (kpk_drop sdp) zero_mem) c = 0"
  by (cases c)
     (simp_all add: kd_tables Let_def member_simps chess_king_last kd_king_attacks kd_pe
        chess_env_fields piece_defs fresh_fields)

lemma kd_counters_white:
  "kingAttackersCount (attack_tables chess_env kpk_pe (kpk_drop sdp) zero_mem) WHITE = Some 0"
  "kingAttackersWeight (attack_tables chess_env kpk_pe (kpk_drop sdp) zero_mem) WHITE = Some 0"
  "kingAttacksCount (attack_tables chess_env kpk_pe (kpk_drop sdp) zero_mem) WHITE = Some 0"
  by (simp_all add: kd_tables Let_def member_simps chess_king_last kd_used kd_king_ring kd_pe
        chess_env_fields s_popcount_zero piece_defs)

lemma kd_counters_black:
  "kingAttackersCount (attack_tables chess_env kpk_pe (kpk_drop sdp) zero_mem) BLACK = Some 0"
  "kingAttackersWeight (attack_tables chess_env kpk_pe (kpk_drop sdp) zero_mem) BLACK = Some 0"
  "kingAttacksCount (attack_tables chess_env kpk_pe (kpk_drop sdp) zero_mem) BLACK = Some 0"
  by (simp_all add: kd_tables Let_def member_simps chess_king_last kd_used kd_king_ring kd_pe
        chess_env_fields s_popcount_zero piece_defs)

lemma kd_mobility:
  "mobility (attack_tables chess_env kpk_pe (kpk_drop sdp) zero_mem) c = SCORE_ZERO"
  by (simp add: kd_tables Let_def member_simps fresh_fields)

lemma kd_danger_units:
  "king_danger_units chess_env (kpk_drop sdp)
     (attack_tables chess_env kpk_pe (kpk_drop sdp) zero_mem) WHITE 4 (Score 30 (- 16)) 0 0 0
   = 7"
  by (simp add: king_danger_units_def king_check_step_def get_attacks_def Let_def
      kd_attacked_by kd_attacked_by2 kd_king_rings kd_mobility_area kd_position_num kd_board
      chess_env_fields piece_defs s_popcount_zero cdiv_def to_int_id)

lemma kd_main:
  "king_main chess_env (kpk_drop sdp) (attack_tables chess_env kpk_pe (kpk_drop sdp) zero_mem)
     WHITE 4 (Score 30 (- 16))
   = Some (Score 30 (- 16))"
  by (simp add: king_main_def kd_counters_black king_danger_guard_def kd_position kd_danger_units
      king_danger_score_def kd_mobility sc_sub_def SCORE_ZERO_def make_score_def cdiv_def
      to_int_id)

lemma kd_flank:
  "king_flank chess_env (kpk_drop sdp) (attack_tables chess_env kpk_pe (kpk_drop sdp) zero_mem)
     WHITE 4 (Score 30 (- 16))
   = Score 30 (- 16)"
  by (simp add: king_flank_def Let_def kd_attacked_by kd_attacked_by2 kd_position_num
      chess_env_fields KingFlank_def CenterFiles_def QueenSide_def KingSide_def FILE_B_def
      FILE_H_def s_relative_rank_def s_forward_ranks_bb_def s_file_bb_def AllSquares_def
      cdiv_def piece_defs s_popcount_zero sc_sub_def sc_mul_def CloseEnemies_def
      mask_eq_exp_minus_1)

lemma kd_king:
  "king chess_env kpk_pe (kpk_drop sdp) (attack_tables chess_env kpk_pe (kpk_drop sdp) zero_mem)
     WHITE
   = Some (if sdp then Score 30 30 else Score 10 10)"
  by (simp add: king_def Let_def kd_position chess_env_fields kd_pe kd_main kd_flank
      king_drop_collapse_def sc_div_def make_score_def cdiv_def)

subsection \<open>The king score in drop variants\<close>

lemma king_drop_collapse_components:
  "captures_to_hand pos \<Longrightarrow>
     king_drop_collapse pos sc =
       Score (cdiv (mg_value sc) (if shogi_doubled_pawn pos then 1 else 3))
             (cdiv (mg_value sc) (if shogi_doubled_pawn pos then 1 else 3))"
  by (simp add: king_drop_collapse_def sc_div_def make_score_def)

text \<open>
  C3, as amended. For every position of a variant in which captures go to hand, the score
  that \<open>king\<close> returns has equal middlegame and endgame components. It is \<open>SCORE_ZERO\<close>
  when the colour has no king or checking is not permitted. Otherwise both components
  are the middlegame value of the score computed so far, divided as a C++ int by
  \<open>1 + 2 * !shogi_doubled_pawn()\<close>: divided by 3 when \<^verbatim>\<open>shogi_doubled_pawn()\<close> is false, and
  left as it is when it is true. It is never halved.
\<close>

theorem king_drop_score:
  assumes "captures_to_hand pos" and "king X pe pos e Us = Some sc"
  shows "mg_value sc = eg_value sc
         \<and> (count_c pos (KING X) Us = 0 \<or> \<not> checking_permitted pos \<longrightarrow> sc = SCORE_ZERO)
         \<and> (count_c pos (KING X) Us \<noteq> 0 \<and> checking_permitted pos \<longrightarrow>
              (\<exists>score. king_main X pos e Us (square_of pos (KING X) Us)
                          (king_safety pe Us (square_of pos (KING X) Us)) = Some score
                 \<and> sc = (let m = mg_value (king_flank X pos e Us (square_of pos (KING X) Us) score);
                              d = (if shogi_doubled_pawn pos then 1 else 3)
                          in Score (cdiv m d) (cdiv m d))))"
proof (cases "count_c pos (KING X) Us = 0 \<or> \<not> checking_permitted pos")
  case True
  with assms(2) have "sc = SCORE_ZERO" by (auto simp: king_def)
  with True show ?thesis by (auto simp: SCORE_ZERO_def)
next
  case False
  with assms(2) obtain score where
    m: "king_main X pos e Us (square_of pos (KING X) Us)
          (king_safety pe Us (square_of pos (KING X) Us)) = Some score"
    and sc: "sc = king_drop_collapse pos (king_flank X pos e Us (square_of pos (KING X) Us) score)"
    by (auto simp: king_def Let_def split: option.splits)
  from sc assms(1)
  have "sc = (let m = mg_value (king_flank X pos e Us (square_of pos (KING X) Us) score);
                  d = (if shogi_doubled_pawn pos then 1 else 3)
              in Score (cdiv m d) (cdiv m d))"
    by (simp add: king_drop_collapse_components Let_def)
  with m False show ?thesis by (auto simp: Let_def)
qed

text \<open>
  In \<open>kpk_drop\<close> the score of the white king is 30 and \<open>- 16\<close> before the last step. With
  \<^verbatim>\<open>shogiDoubledPawn\<close> false, \<open>king\<close> returns 10 and 10.
\<close>

theorem king_drop_score_witness:
  "mg_value (Score 10 10) = eg_value (Score 10 10)
   \<and> (\<exists>score. king_main chess_env (kpk_drop False)
                  (attack_tables chess_env kpk_pe (kpk_drop False) zero_mem) WHITE 4
                  (Score 30 (- 16)) = Some score
         \<and> Score 10 10 =
             (let m = mg_value (king_flank chess_env (kpk_drop False)
                         (attack_tables chess_env kpk_pe (kpk_drop False) zero_mem) WHITE 4 score)
              in Score (cdiv m 3) (cdiv m 3)))"
proof -
  have k: "king chess_env kpk_pe (kpk_drop False)
             (attack_tables chess_env kpk_pe (kpk_drop False) zero_mem) WHITE
           = Some (Score 10 10)"
    by (simp add: kd_king)
  from king_drop_score [OF _ k]
  show ?thesis
    by (simp add: kd_position chess_env_fields kd_pe)
qed

text \<open>
  The claim as stated has the collapsed value halved when the variant has no restriction
  on doubled shogi pawns. The score of the white king before the last step is 30 and
  \<open>- 16\<close>; half of the collapsed value would be 15 and 15. \<open>king\<close> returns 30 and 30 when
  \<^verbatim>\<open>shogiDoubledPawn\<close> is true, and 10 and 10 when it is false.
\<close>

theorem king_drop_halved_counterexample:
  "captures_to_hand (kpk_drop True) \<and> captures_to_hand (kpk_drop False)
   \<and> shogi_doubled_pawn (kpk_drop True) \<and> \<not> shogi_doubled_pawn (kpk_drop False)
   \<and> king_flank chess_env (kpk_drop True)
        (attack_tables chess_env kpk_pe (kpk_drop True) zero_mem) WHITE 4 (Score 30 (- 16))
      = Score 30 (- 16)
   \<and> king_flank chess_env (kpk_drop False)
        (attack_tables chess_env kpk_pe (kpk_drop False) zero_mem) WHITE 4 (Score 30 (- 16))
      = Score 30 (- 16)
   \<and> king chess_env kpk_pe (kpk_drop True)
        (attack_tables chess_env kpk_pe (kpk_drop True) zero_mem) WHITE
      = Some (Score 30 30)
   \<and> king chess_env kpk_pe (kpk_drop False)
        (attack_tables chess_env kpk_pe (kpk_drop False) zero_mem) WHITE
      = Some (Score 10 10)
   \<and> sc_div (make_score 30 30) 2 = Score 15 15"
  by (simp add: kd_position kd_flank kd_king sc_div_def make_score_def cdiv_def)

end
